theory Spec2Isabelle
  imports Main "HOL-Library.Word"
begin

unbundle bit_operations_syntax

section \<open>Data model of the debugger frame (rpcs3qt/debugger\_frame.cpp)\<close>

type_synonym u32 = "32 word"
type_synonym u64 = "64 word"

text \<open>Objects are named by their address; a null pointer is \<open>None\<close>.\<close>

type_synonym ptr = nat

text \<open>
  Modelled from the spec: the enumeration \<open>cpu_flag\<close> (Emu/CPU/CPUThread.h is not part of
  the sources at hand). The spec's PauseFlags bitset contains at least \<open>dbg_pause\<close>,
  \<open>dbg_global_pause\<close>, \<open>dbg_step\<close>, \<open>wait\<close> and \<open>exit\<close>; every further flag is
  \<open>other_flag n\<close>. A \<open>bs_t<cpu_flag>\<close> is a set of flags: \<open>+\<close> is union, \<open>-\<close> is
  difference, \<open>&\<close> is intersection and its truth value is non-emptiness.
\<close>

datatype cpu_flag = wait | exit | dbg_pause | dbg_global_pause | dbg_step | other_flag nat

text \<open>\<open>constexpr auto s_pause_flags = cpu_flag::dbg_pause + cpu_flag::dbg_global_pause\<close>\<close>

definition s_pause_flags :: "cpu_flag set" where
  "s_pause_flags = {dbg_pause, dbg_global_pause}"

text \<open>\<open>umax\<close> converted to \<open>u32\<close>: all bits set, the same value as \<open>-1\<close> and \<open>UINT32_MAX\<close>.\<close>

definition umax :: u32 where
  "umax = - 1"

text \<open>
  Modelled from the spec: \<open>system_state\<close> (Emu/System.h), the emulation lifecycle state.
  Only \<open>stopped\<close> is named by the code.
\<close>

datatype system_state = running | paused | stopped | ready

text \<open>
  A \<open>cpu_thread\<close> object as far as the debugger frame looks at it: its id, its atomic
  flag bitset \<open>state\<close>, its program counter (what \<open>get_pc()\<close> returns), its name, and,
  for the \<open>rsx::thread\<close>, whether the \<open>ctrl\<close> pointer is non-null.
\<close>

record cpu_thread =
  cpu_id :: u32
  state :: "cpu_flag set"
  pc :: u32
  name :: string
  ctrl :: bool

text \<open>Modelled from the spec: the high byte of the id encodes the unit kind
  (\<open>id >> 24\<close>, as line 508 of the source also computes it); 1 is a PPU thread, 2 an SPU
  thread.\<close>

definition id_type :: "cpu_thread \<Rightarrow> u32" where
  "id_type t = drop_bit 24 (cpu_id t)"

text \<open>Modelled from the spec: \<open>cpu_thread::get_pc\<close>, the unit's current program counter.\<close>

definition get_pc :: "cpu_thread \<Rightarrow> u32" where
  "get_pc t = pc t"

text \<open>The three disassembler variants; the SPU and RSX ones are bound to their unit.\<close>

datatype disasm = PPUDisAsm | SPUDisAsm ptr | RSXDisAsm "ptr option"

text \<open>
  What an entry of the unit combo box carries in its \<open>QVariant\<close>: nothing (the
  "No Thread" entry), a \<open>std::weak_ptr<cpu_thread>\<close> (empty when \<open>None\<close>), or a non-null
  \<open>rsx::thread*\<close>.
\<close>

datatype item_data = NoData | WeakItem "ptr option" | RenderItem ptr

datatype button = btn_go_to_addr | btn_go_to_pc | btn_step | btn_step_over | btn_run

datatype run_text = RunString | PauseString

text \<open>
  Calls into the collaborators the frame only talks to (widgets, the woken thread, the
  virtual memory) are recorded in a trace, newest first.
\<close>

datatype ui_event =
    is_Notify: Notify ptr
  | is_ShowAddress: ShowAddress u32 bool
  | ListUpdateCPUData "ptr option" "disasm option"
  | BpListUpdateCPUData "ptr option" "disasm option"
  | ClearPanels
  | SetPanels ptr
  | CallStackUpdateRequested ptr
  | SetRunText run_text
  | SetEnabled button bool
  | MakeDisasm disasm
  | VmAccess u32
  | LsRead ptr u32
  | ChoiceUpdate

text \<open>
  The state the frame's member functions read and write. The first group is the emulator's
  side (read through \<open>idm\<close>, \<open>g_fxo\<close>, \<open>Emu\<close>, \<open>vm\<close> and the thread objects), the second
  group are the members of \<open>debugger_frame\<close> and of the widgets it owns.

  \<^item> \<open>heap\<close>: the thread objects by address; \<open>alive p\<close>: object \<open>p\<close> has an owner other than
    the frame's \<open>m_cpu\<close> (a \<open>weak_ptr\<close> to it has not expired once \<open>m_cpu\<close> is reset).
  \<^item> \<open>idm_ppu\<close>, \<open>idm_spu\<close>: the id manager's tables of \<open>named_thread<ppu_thread>\<close> and
    \<open>named_thread<spu_thread>\<close>, in the order \<open>idm::select\<close> visits them.
  \<^item> \<open>g_fxo_rsx\<close>: \<open>g_fxo->get<rsx::thread>()\<close>.
  \<^item> \<open>vm_page_executable a\<close>: \<open>vm::check_addr(a, vm::page_executable)\<close>;
    \<open>vm_try_access a\<close>: the word \<open>vm::try_access(a, &op, 4, false)\<close> reads, if it succeeds.
  \<^item> \<open>ppu_op_branch_targets\<close>, \<open>spu_op_branch_targets\<close>: the two overloads of
    \<open>op_branch_targets(pc, op)\<close>, which are not part of the sources at hand.
  \<^item> \<open>sizeof_*\<close>: the three object sizes \<open>UpdateUI\<close> chooses from; \<open>ulong_bits\<close>: the
    width of \<open>unsigned long\<close>.
  \<^item> \<open>m_breakpoints\<close>: the address set of \<open>m_breakpoint_handler\<close>.
  \<^item> \<open>m_last_query_state\<close>: the byte vector, as its size and the object it was copied
    from (\<open>None\<close> is the empty vector).
  \<^item> \<open>choice_items\<close>, \<open>choice_index\<close>: the entries and the current index of
    \<open>m_choice_units\<close> (\<open>-1\<close>: no current entry).
\<close>

record debugger_frame =
  heap :: "ptr \<Rightarrow> cpu_thread"
  alive :: "ptr \<Rightarrow> bool"
  idm_ppu :: "(u32 \<times> ptr) list"
  idm_spu :: "(u32 \<times> ptr) list"
  g_fxo_rsx :: "ptr option"
  g_threads_created :: u64
  g_threads_deleted :: u64
  Emu_status :: system_state
  vm_page_executable :: "u32 \<Rightarrow> bool"
  vm_try_access :: "u32 \<Rightarrow> u32 option"
  spu_ls :: "ptr \<Rightarrow> u32 \<Rightarrow> u32"
  ppu_op_branch_targets :: "u32 \<Rightarrow> u32 \<Rightarrow> u32 \<times> u32"
  spu_op_branch_targets :: "u32 \<Rightarrow> u32 \<Rightarrow> u32 \<times> u32"
  sizeof_ppu_thread :: nat
  sizeof_spu_thread :: nat
  sizeof_cpu_thread :: nat
  ulong_bits :: nat
  m_breakpoints :: "u32 set"
  m_cpu :: "ptr option"
  m_rsx :: "ptr option"
  m_disasm :: "disasm option"
  m_last_pc :: u32
  m_last_query_state :: "(nat \<times> cpu_thread) option"
  m_last_step_over_breakpoint :: u32
  m_threads_created :: u64
  m_threads_deleted :: u64
  m_emu_state :: system_state
  choice_items :: "(string \<times> item_data) list"
  choice_index :: int
  events :: "ui_event list"

definition emit :: "ui_event \<Rightarrow> debugger_frame \<Rightarrow> debugger_frame" where
  "emit e s = s\<lparr>events := e # events s\<rparr>"

section \<open>The breakpoint coordinator\<close>

text \<open>
  Modelled from the spec: \<open>breakpoint_handler::AddBreakpoint\<close> and \<open>RemoveBreakpoint\<close>
  (breakpoint\_handler.cpp is not part of the sources at hand). The coordinator owns a set
  of addresses; addresses are normalised to the 4-byte instruction alignment before
  storage; adding a present address and removing an absent one change nothing.
\<close>

definition bp_normalize :: "u32 \<Rightarrow> u32" where
  "bp_normalize a = a AND NOT 3"

definition AddBreakpoint :: "u32 \<Rightarrow> debugger_frame \<Rightarrow> debugger_frame" where
  "AddBreakpoint loc s = s\<lparr>m_breakpoints := insert (bp_normalize loc) (m_breakpoints s)\<rparr>"

definition RemoveBreakpoint :: "u32 \<Rightarrow> debugger_frame \<Rightarrow> debugger_frame" where
  "RemoveBreakpoint loc s = s\<lparr>m_breakpoints := m_breakpoints s - {bp_normalize loc}\<rparr>"

definition HasBreakpoint :: "u32 \<Rightarrow> debugger_frame \<Rightarrow> bool" where
  "HasBreakpoint loc s = (bp_normalize loc \<in> m_breakpoints s)"

section \<open>Resolving the current unit\<close>

text \<open>
  \<open>debugger_frame::get_cpu\<close> (lines 406-431). It returns the unit and, because it clears
  \<open>m_rsx\<close> on the way, the frame. \<open>+state + wait + exit != +state\<close> says that the wait and
  the exit flag are not both set.
\<close>

definition get_cpu :: "debugger_frame \<Rightarrow> ptr option \<times> debugger_frame" where
  "get_cpu s =
     (if (case m_cpu s of
            None \<Rightarrow> False
          | Some p \<Rightarrow> state (heap s p) \<union> {wait} \<union> {exit} \<noteq> state (heap s p))
      then (m_cpu s, s)
      else
        let s1 = (if g_fxo_rsx s \<noteq> m_rsx s then s\<lparr>m_rsx := None\<rparr> else s);
            s2 = (if (case m_rsx s1 of None \<Rightarrow> False | Some r \<Rightarrow> \<not> ctrl (heap s1 r))
                  then s1\<lparr>m_rsx := None\<rparr> else s1)
        in (m_rsx s2, s2))"

section \<open>The state poll\<close>

text \<open>\<open>debugger_frame::ShowPC\<close> (lines 732-739).\<close>

definition ShowPC :: "debugger_frame \<Rightarrow> debugger_frame" where
  "ShowPC s =
     (let r = get_cpu s;
          pc0 = (case fst r of Some cpu0 \<Rightarrow> get_pc (heap (snd r) cpu0) | None \<Rightarrow> 0)
      in emit (ShowAddress pc0 False) (snd r))"

text \<open>\<open>debugger_frame::WritePanels\<close> (lines 621-645).\<close>

definition WritePanels :: "debugger_frame \<Rightarrow> debugger_frame" where
  "WritePanels s =
     (let r = get_cpu s
      in case fst r of
           None \<Rightarrow> emit ClearPanels (snd r)
         | Some cpu \<Rightarrow> emit (CallStackUpdateRequested cpu) (emit (SetPanels cpu) (snd r)))"

text \<open>\<open>debugger_frame::DoUpdate\<close> (lines 608-619).\<close>

definition DoUpdate :: "debugger_frame \<Rightarrow> debugger_frame" where
  "DoUpdate s =
     (let r = get_cpu s;
          s1 = snd r;
          s2 = (if (case fst r of
                      None \<Rightarrow> False
                    | Some cpu0 \<Rightarrow> m_last_step_over_breakpoint s1 \<noteq> umax
                        \<and> get_pc (heap s1 cpu0) = m_last_step_over_breakpoint s1)
                then (RemoveBreakpoint (m_last_step_over_breakpoint s1) s1)
                       \<lparr>m_last_step_over_breakpoint := - 1\<rparr>
                else s1)
      in WritePanels (ShowPC s2))"

section \<open>The unit combo box\<close>

text \<open>
  Modelled from the spec: the part of \<open>QComboBox\<close> the frame uses (Qt is not part of the
  sources at hand). The visible target list is a list of entries with a current index;
  \<open>clear\<close> empties it, \<open>addItem\<close> appends an entry and makes it current when the box was
  empty, \<open>currentData\<close> is the data of the current entry and no data when there is none.
  Signals are blocked while \<open>UpdateUnitList\<close> rebuilds the list.
\<close>

definition choice_count :: "debugger_frame \<Rightarrow> int" where
  "choice_count s = int (length (choice_items s))"

definition choice_clear :: "debugger_frame \<Rightarrow> debugger_frame" where
  "choice_clear s = s\<lparr>choice_items := [], choice_index := - 1\<rparr>"

definition addItem :: "string \<Rightarrow> item_data \<Rightarrow> debugger_frame \<Rightarrow> debugger_frame" where
  "addItem text0 d s =
     s\<lparr>choice_items := choice_items s @ [(text0, d)],
       choice_index := (if choice_items s = [] then 0 else choice_index s)\<rparr>"

definition setCurrentIndex :: "int \<Rightarrow> debugger_frame \<Rightarrow> debugger_frame" where
  "setCurrentIndex i s = s\<lparr>choice_index := i\<rparr>"

definition currentData :: "debugger_frame \<Rightarrow> item_data" where
  "currentData s =
     (if 0 \<le> choice_index s \<and> choice_index s < choice_count s
      then snd (choice_items s ! nat (choice_index s)) else NoData)"

text \<open>\<open>QVariant::value<std::weak_ptr<cpu_thread>>()\<close>: empty unless a weak pointer is held.\<close>

definition value_weak :: "item_data \<Rightarrow> ptr option" where
  "value_weak d = (case d of WeakItem w \<Rightarrow> w | _ \<Rightarrow> None)"

text \<open>\<open>QVariant::value<rsx::thread*>()\<close>: null unless a render pointer is held.\<close>

definition value_render :: "item_data \<Rightarrow> ptr option" where
  "value_render d = (case d of RenderItem r \<Rightarrow> Some r | _ \<Rightarrow> None)"

text \<open>Modelled from the spec: the label of the entry that stands for no unit (the constant
  is declared in debugger\_frame.h, which is not part of the sources at hand).\<close>

definition NoThreadString :: string where
  "NoThreadString = ''No Thread''"

section \<open>Refreshing the target list\<close>

text \<open>The lambda \<open>on_select\<close> of \<open>UpdateUnitList\<close> (lines 503-512).\<close>

definition on_select ::
  "system_state \<Rightarrow> item_data \<Rightarrow> u32 \<times> ptr \<Rightarrow> debugger_frame \<Rightarrow> debugger_frame" where
  "on_select emu_state old_cpu entry s =
     (if emu_state = stopped then s
      else
        let var_cpu = WeakItem (if drop_bit 24 (fst entry) = 1
                                then map_of (idm_ppu s) (fst entry)
                                else map_of (idm_spu s) (fst entry));
            s1 = addItem (name (heap s (snd entry))) var_cpu s
        in if old_cpu = var_cpu then setCurrentIndex (choice_count s1 - 1) s1 else s1)"

text \<open>
  The rebuild of the list in \<open>UpdateUnitList\<close> (lines 500-529): the "No Thread" entry, the
  PPU threads, the SPU threads, then the RSX thread when the emulation is not stopped and
  its \<open>ctrl\<close> is set.
\<close>

definition rebuild_unit_list :: "system_state \<Rightarrow> debugger_frame \<Rightarrow> debugger_frame" where
  "rebuild_unit_list emu_state s =
     (let old_cpu = currentData s;
          s1 = addItem NoThreadString NoData (choice_clear s);
          s2 = fold (on_select emu_state old_cpu) (idm_ppu s1) s1;
          s3 = fold (on_select emu_state old_cpu) (idm_spu s2) s2
      in case g_fxo_rsx s3 of
           None \<Rightarrow> s3
         | Some render \<Rightarrow>
             if emu_state \<noteq> stopped \<and> ctrl (heap s3 render)
             then
               let var_cpu = RenderItem render;
                   s4 = addItem ''RSX[0x55555555]'' var_cpu s3
               in if old_cpu = var_cpu then setCurrentIndex (choice_count s4 - 1) s4 else s4
             else s3)"

text \<open>The test at the head of \<open>UpdateUnitList\<close> (line 488).\<close>

definition targets_changed :: "debugger_frame \<Rightarrow> bool" where
  "targets_changed s =
     (g_threads_created s \<noteq> m_threads_created s
      \<or> g_threads_deleted s \<noteq> m_threads_deleted s
      \<or> Emu_status s \<noteq> m_emu_state s)"

text \<open>The three assignments of \<open>UpdateUnitList\<close> when the test succeeds (lines 490-492).\<close>

definition record_counters :: "debugger_frame \<Rightarrow> debugger_frame" where
  "record_counters s =
     s\<lparr>m_threads_created := g_threads_created s,
       m_threads_deleted := g_threads_deleted s,
       m_emu_state := Emu_status s\<rparr>"

section \<open>Selecting a unit\<close>

text \<open>\<open>debugger_frame::EnableButtons\<close> (lines 786-795).\<close>

definition EnableButtons :: "bool \<Rightarrow> debugger_frame \<Rightarrow> debugger_frame" where
  "EnableButtons enable0 s =
     (let r = get_cpu s;
          enable = (if fst r = None then False else enable0)
      in emit (SetEnabled btn_run enable)
           (emit (SetEnabled btn_step_over enable)
             (emit (SetEnabled btn_step enable)
               (emit (SetEnabled btn_go_to_pc enable)
                 (emit (SetEnabled btn_go_to_addr enable) (snd r))))))"

text \<open>
  The second early return of \<open>OnSelectUnit\<close> (lines 558-561), reached when the recorded
  emulation state is not stopped: whether \<open>render && render == get_cpu()\<close> holds, and the
  frame after the call of \<open>get_cpu\<close>, which is made only when \<open>render\<close> is non-null.
\<close>

definition render_selected :: "debugger_frame \<Rightarrow> bool \<times> debugger_frame" where
  "render_selected s =
     (case value_render (currentData s) of
        None \<Rightarrow> (False, s)
      | Some render \<Rightarrow>
          if m_emu_state s \<noteq> stopped
          then (let r = get_cpu s in (fst r = Some render, snd r))
          else (False, s))"

text \<open>
  \<open>OnSelectUnit\<close> from line 564 to line 604: drop the old binding, bind the unit of the
  current entry, enable the buttons, push the unit to the two lists and run \<open>DoUpdate\<close>.
  The weak pointer has expired when it is empty or its object has no owner left.
\<close>

definition bind_selected_unit ::
  "ptr option \<Rightarrow> ptr option \<Rightarrow> debugger_frame \<Rightarrow> debugger_frame" where
  "bind_selected_unit weak render s =
     (let s1 = s\<lparr>m_disasm := None, m_cpu := None, m_rsx := None\<rparr>;
          s2 =
            (if (case weak of None \<Rightarrow> False | Some p \<Rightarrow> alive s1 p)
             then
               (case weak of
                  None \<Rightarrow> s1
                | Some cpu0 \<Rightarrow>
                    if id_type (heap s1 cpu0) = 1
                    then
                      (if map_of (idm_ppu s1) (cpu_id (heap s1 cpu0)) = Some cpu0
                       then emit (MakeDisasm PPUDisAsm)
                              (s1\<lparr>m_cpu := Some cpu0, m_disasm := Some PPUDisAsm\<rparr>)
                       else s1)
                    else if id_type (heap s1 cpu0) = 2
                    then
                      (if map_of (idm_spu s1) (cpu_id (heap s1 cpu0)) = Some cpu0
                       then emit (MakeDisasm (SPUDisAsm cpu0))
                              (s1\<lparr>m_cpu := Some cpu0, m_disasm := Some (SPUDisAsm cpu0)\<rparr>)
                       else s1)
                    else s1)
             else
               (let r = get_cpu (s1\<lparr>m_rsx := render\<rparr>)
                in if fst r \<noteq> None
                   then emit (MakeDisasm (RSXDisAsm (m_rsx (snd r))))
                          ((snd r)\<lparr>m_disasm := Some (RSXDisAsm (m_rsx (snd r)))\<rparr>)
                   else snd r));
          s3 = EnableButtons True s2;
          r4 = get_cpu s3;
          s4 = emit (ListUpdateCPUData (fst r4) (m_disasm (snd r4))) (snd r4);
          r5 = get_cpu s4;
          s5 = emit (BpListUpdateCPUData (fst r5) (m_disasm (snd r5))) (snd r5)
      in DoUpdate s5)"

text \<open>
  The snapshot vector of \<open>UpdateUI\<close>: its size, and whether \<open>memcmp\<close> over \<open>n\<close> bytes finds
  a difference with the object. The bytes of an object are abstracted to the object as
  modelled.
\<close>

definition query_state_size :: "(nat \<times> cpu_thread) option \<Rightarrow> nat" where
  "query_state_size q = (case q of None \<Rightarrow> 0 | Some (n, t) \<Rightarrow> n)"

definition memcmp_differs :: "(nat \<times> cpu_thread) option \<Rightarrow> cpu_thread \<Rightarrow> nat \<Rightarrow> bool" where
  "memcmp_differs q t n = (n \<noteq> 0 \<and> (case q of None \<Rightarrow> False | Some (m, t') \<Rightarrow> t' \<noteq> t))"

definition resize_memcpy :: "nat \<Rightarrow> cpu_thread \<Rightarrow> (nat \<times> cpu_thread) option" where
  "resize_memcpy n t = (if n = 0 then None else Some (n, t))"

definition size_context :: "debugger_frame \<Rightarrow> cpu_thread \<Rightarrow> nat" where
  "size_context s t =
     (if id_type t = 1 then sizeof_ppu_thread s
      else if id_type t = 2 then sizeof_spu_thread s
      else sizeof_cpu_thread s)"

text \<open>\<open>UpdateUI\<close> from line 437 on, after its call of \<open>UpdateUnitList\<close>.\<close>

definition poll_unit_state :: "debugger_frame \<Rightarrow> debugger_frame" where
  "poll_unit_state s =
     (let r = get_cpu s; s1 = snd r
      in case fst r of
           None \<Rightarrow>
             if m_last_pc s1 \<noteq> umax \<or> query_state_size (m_last_query_state s1) \<noteq> 0
             then DoUpdate (s1\<lparr>m_last_query_state := None, m_last_pc := - 1\<rparr>)
             else s1
         | Some cpu \<Rightarrow>
             let cia = get_pc (heap s1 cpu);
                 size_ctx = size_context s1 (heap s1 cpu)
             in if m_last_pc s1 \<noteq> cia
                   \<or> query_state_size (m_last_query_state s1) \<noteq> size_ctx
                   \<or> memcmp_differs (m_last_query_state s1) (heap s1 cpu) size_ctx
                then
                  let s2 = DoUpdate
                             (s1\<lparr>m_last_query_state := resize_memcpy size_ctx (heap s1 cpu),
                                 m_last_pc := cia\<rparr>)
                  in if state (heap s2 cpu) \<inter> s_pause_flags \<noteq> {}
                     then emit (SetEnabled btn_step_over True)
                            (emit (SetEnabled btn_step True) (emit (SetRunText RunString) s2))
                     else emit (SetEnabled btn_step_over False)
                            (emit (SetEnabled btn_step False) (emit (SetRunText PauseString) s2))
                else s1)"

text \<open>
  \<open>debugger_frame::UpdateUI\<close> (lines 433-477), \<open>debugger_frame::UpdateUnitList\<close>
  (lines 482-534) and \<open>debugger_frame::OnSelectUnit\<close> (lines 536-606) call each other:
  the poll refreshes the list, the refresh reselects, the selection polls again. The cycle
  ends because the refresh first records the counters it has seen.
\<close>

function UpdateUI :: "debugger_frame \<Rightarrow> debugger_frame"
  and UpdateUnitList :: "debugger_frame \<Rightarrow> debugger_frame"
  and OnSelectUnit :: "debugger_frame \<Rightarrow> debugger_frame" where
  "UpdateUI s = poll_unit_state (UpdateUnitList s)"
| "UpdateUnitList s =
     (if targets_changed s
      then emit ChoiceUpdate
             (OnSelectUnit (rebuild_unit_list (Emu_status s) (record_counters s)))
      else s)"
| "OnSelectUnit s =
     (if choice_count s < 1
      then (emit (BpListUpdateCPUData None None) (emit (ListUpdateCPUData None None) s))
             \<lparr>m_disasm := None, m_cpu := None\<rparr>
      else if m_emu_state s \<noteq> stopped \<and> value_render (currentData s) = None
              \<and> value_weak (currentData s) = m_cpu s
      then s
      else if fst (render_selected s)
      then snd (render_selected s)
      else UpdateUI
             (bind_selected_unit (value_weak (currentData s)) (value_render (currentData s))
               (snd (render_selected s))))"
  by pat_completeness auto

text \<open>
  Two views of the state for the frame conditions below: what belongs to the emulator, and
  what \<open>UpdateUnitList\<close> maintains (the recorded counters and the visible list).
\<close>

definition emulator_side where
  "emulator_side s =
     (heap s, alive s, idm_ppu s, idm_spu s, g_fxo_rsx s, g_threads_created s,
      g_threads_deleted s, Emu_status s, vm_page_executable s, vm_try_access s, spu_ls s,
      ppu_op_branch_targets s, spu_op_branch_targets s, sizeof_ppu_thread s,
      sizeof_spu_thread s, sizeof_cpu_thread s, ulong_bits s)"

definition cached_counters where
  "cached_counters s = (m_threads_created s, m_threads_deleted s, m_emu_state s)"

definition unit_list_side where
  "unit_list_side s = (cached_counters s, choice_items s, choice_index s)"

lemma emulator_side_updates [simp]:
  "emulator_side (s\<lparr>m_breakpoints := b\<rparr>) = emulator_side s"
  "emulator_side (s\<lparr>m_cpu := c\<rparr>) = emulator_side s"
  "emulator_side (s\<lparr>m_rsx := r\<rparr>) = emulator_side s"
  "emulator_side (s\<lparr>m_disasm := d\<rparr>) = emulator_side s"
  "emulator_side (s\<lparr>m_last_pc := p\<rparr>) = emulator_side s"
  "emulator_side (s\<lparr>m_last_query_state := q\<rparr>) = emulator_side s"
  "emulator_side (s\<lparr>m_last_step_over_breakpoint := l\<rparr>) = emulator_side s"
  "emulator_side (s\<lparr>m_threads_created := tc\<rparr>) = emulator_side s"
  "emulator_side (s\<lparr>m_threads_deleted := td\<rparr>) = emulator_side s"
  "emulator_side (s\<lparr>m_emu_state := es\<rparr>) = emulator_side s"
  "emulator_side (s\<lparr>choice_items := ci\<rparr>) = emulator_side s"
  "emulator_side (s\<lparr>choice_index := cx\<rparr>) = emulator_side s"
  "emulator_side (s\<lparr>events := ev\<rparr>) = emulator_side s"
  by (simp_all add: emulator_side_def)

lemma cached_counters_updates [simp]:
  "cached_counters (s\<lparr>m_breakpoints := b\<rparr>) = cached_counters s"
  "cached_counters (s\<lparr>m_cpu := c\<rparr>) = cached_counters s"
  "cached_counters (s\<lparr>m_rsx := r\<rparr>) = cached_counters s"
  "cached_counters (s\<lparr>m_disasm := d\<rparr>) = cached_counters s"
  "cached_counters (s\<lparr>m_last_pc := p\<rparr>) = cached_counters s"
  "cached_counters (s\<lparr>m_last_query_state := q\<rparr>) = cached_counters s"
  "cached_counters (s\<lparr>m_last_step_over_breakpoint := l\<rparr>) = cached_counters s"
  "cached_counters (s\<lparr>choice_items := ci\<rparr>) = cached_counters s"
  "cached_counters (s\<lparr>choice_index := cx\<rparr>) = cached_counters s"
  "cached_counters (s\<lparr>events := ev\<rparr>) = cached_counters s"
  by (simp_all add: cached_counters_def)

lemma unit_list_side_updates [simp]:
  "unit_list_side (s\<lparr>m_breakpoints := b\<rparr>) = unit_list_side s"
  "unit_list_side (s\<lparr>m_cpu := c\<rparr>) = unit_list_side s"
  "unit_list_side (s\<lparr>m_rsx := r\<rparr>) = unit_list_side s"
  "unit_list_side (s\<lparr>m_disasm := d\<rparr>) = unit_list_side s"
  "unit_list_side (s\<lparr>m_last_pc := p\<rparr>) = unit_list_side s"
  "unit_list_side (s\<lparr>m_last_query_state := q\<rparr>) = unit_list_side s"
  "unit_list_side (s\<lparr>m_last_step_over_breakpoint := l\<rparr>) = unit_list_side s"
  "unit_list_side (s\<lparr>events := ev\<rparr>) = unit_list_side s"
  by (simp_all add: unit_list_side_def)

lemma get_cpu_keeps [simp]:
  "heap (snd (get_cpu s)) = heap s"
  "alive (snd (get_cpu s)) = alive s"
  "idm_ppu (snd (get_cpu s)) = idm_ppu s"
  "idm_spu (snd (get_cpu s)) = idm_spu s"
  "g_fxo_rsx (snd (get_cpu s)) = g_fxo_rsx s"
  "g_threads_created (snd (get_cpu s)) = g_threads_created s"
  "g_threads_deleted (snd (get_cpu s)) = g_threads_deleted s"
  "Emu_status (snd (get_cpu s)) = Emu_status s"
  "vm_page_executable (snd (get_cpu s)) = vm_page_executable s"
  "vm_try_access (snd (get_cpu s)) = vm_try_access s"
  "spu_ls (snd (get_cpu s)) = spu_ls s"
  "ppu_op_branch_targets (snd (get_cpu s)) = ppu_op_branch_targets s"
  "spu_op_branch_targets (snd (get_cpu s)) = spu_op_branch_targets s"
  "sizeof_ppu_thread (snd (get_cpu s)) = sizeof_ppu_thread s"
  "sizeof_spu_thread (snd (get_cpu s)) = sizeof_spu_thread s"
  "sizeof_cpu_thread (snd (get_cpu s)) = sizeof_cpu_thread s"
  "ulong_bits (snd (get_cpu s)) = ulong_bits s"
  "m_breakpoints (snd (get_cpu s)) = m_breakpoints s"
  "m_cpu (snd (get_cpu s)) = m_cpu s"
  "m_disasm (snd (get_cpu s)) = m_disasm s"
  "m_last_pc (snd (get_cpu s)) = m_last_pc s"
  "m_last_query_state (snd (get_cpu s)) = m_last_query_state s"
  "m_last_step_over_breakpoint (snd (get_cpu s)) = m_last_step_over_breakpoint s"
  "m_threads_created (snd (get_cpu s)) = m_threads_created s"
  "m_threads_deleted (snd (get_cpu s)) = m_threads_deleted s"
  "m_emu_state (snd (get_cpu s)) = m_emu_state s"
  "choice_items (snd (get_cpu s)) = choice_items s"
  "choice_index (snd (get_cpu s)) = choice_index s"
  "events (snd (get_cpu s)) = events s"
  by (simp_all add: get_cpu_def Let_def)

lemma get_cpu_sides [simp]:
  "emulator_side (snd (get_cpu s)) = emulator_side s"
  "unit_list_side (snd (get_cpu s)) = unit_list_side s"
  by (simp_all add: emulator_side_def unit_list_side_def cached_counters_def)

lemma ShowPC_sides [simp]:
  "emulator_side (ShowPC s) = emulator_side s"
  "unit_list_side (ShowPC s) = unit_list_side s"
  by (simp_all add: ShowPC_def emit_def Let_def)

lemma WritePanels_sides [simp]:
  "emulator_side (WritePanels s) = emulator_side s"
  "unit_list_side (WritePanels s) = unit_list_side s"
  by (simp_all add: WritePanels_def emit_def Let_def split: option.splits)

lemma DoUpdate_sides [simp]:
  "emulator_side (DoUpdate s) = emulator_side s"
  "unit_list_side (DoUpdate s) = unit_list_side s"
  by (simp_all add: DoUpdate_def RemoveBreakpoint_def Let_def)

lemma EnableButtons_sides [simp]:
  "emulator_side (EnableButtons b s) = emulator_side s"
  "unit_list_side (EnableButtons b s) = unit_list_side s"
  by (simp_all add: EnableButtons_def emit_def Let_def)

lemma bind_selected_unit_sides [simp]:
  "emulator_side (bind_selected_unit w r s) = emulator_side s"
  "unit_list_side (bind_selected_unit w r s) = unit_list_side s"
  by (simp_all add: bind_selected_unit_def emit_def Let_def split: option.splits)

lemma render_selected_sides [simp]:
  "emulator_side (snd (render_selected s)) = emulator_side s"
  "unit_list_side (snd (render_selected s)) = unit_list_side s"
  by (simp_all add: render_selected_def Let_def split: option.splits)

lemma poll_unit_state_sides [simp]:
  "emulator_side (poll_unit_state s) = emulator_side s"
  "unit_list_side (poll_unit_state s) = unit_list_side s"
  by (simp_all add: poll_unit_state_def emit_def Let_def split: option.splits)

lemma targets_changed_sides:
  "emulator_side s' = emulator_side s \<Longrightarrow> unit_list_side s' = unit_list_side s
     \<Longrightarrow> targets_changed s' = targets_changed s"
  by (simp add: targets_changed_def emulator_side_def unit_list_side_def cached_counters_def)

lemma on_select_keeps [simp]:
  "emulator_side (on_select e old x s) = emulator_side s"
  "cached_counters (on_select e old x s) = cached_counters s"
  by (simp_all add: on_select_def addItem_def setCurrentIndex_def Let_def)

lemma fold_on_select_keeps [simp]:
  "emulator_side (fold (on_select e old) xs s) = emulator_side s"
  "cached_counters (fold (on_select e old) xs s) = cached_counters s"
  by (induction xs arbitrary: s) simp_all

lemma rebuild_unit_list_keeps [simp]:
  "emulator_side (rebuild_unit_list e s) = emulator_side s"
  "cached_counters (rebuild_unit_list e s) = cached_counters s"
  by (simp_all add: rebuild_unit_list_def addItem_def choice_clear_def setCurrentIndex_def
        Let_def split: option.splits)

lemma record_counters_keeps [simp]:
  "emulator_side (record_counters s) = emulator_side s"
  "cached_counters (record_counters s) = (g_threads_created s, g_threads_deleted s, Emu_status s)"
  by (simp_all add: record_counters_def cached_counters_def)

lemma targets_unchanged_after_rebuild:
  "\<not> targets_changed (rebuild_unit_list e (record_counters s))"
proof -
  have "emulator_side (rebuild_unit_list e (record_counters s)) = emulator_side s"
    and "cached_counters (rebuild_unit_list e (record_counters s))
           = (g_threads_created s, g_threads_deleted s, Emu_status s)"
    by simp_all
  then show ?thesis
    by (simp add: targets_changed_def emulator_side_def cached_counters_def)
qed

lemma targets_changed_after_bind:
  "targets_changed (bind_selected_unit w r (snd (render_selected s))) = targets_changed s"
  by (rule targets_changed_sides) simp_all

text \<open>
  A refresh that found a change leaves none behind, and nothing else touches the recorded
  counters: every path through the cycle passes the refresh at most twice.
\<close>

termination UpdateUI
  by (relation "measure (\<lambda>x. case x of
           Inl s \<Rightarrow> (if targets_changed s then 3 else 0) + 1
         | Inr (Inl s) \<Rightarrow> (if targets_changed s then 3 else 0)
         | Inr (Inr s) \<Rightarrow> (if targets_changed s then 3 else 0) + 2)")
    (simp_all add: targets_unchanged_after_rebuild targets_changed_after_bind)

declare UpdateUI.simps [simp del]
declare UpdateUnitList.simps [simp del]
declare OnSelectUnit.simps [simp del]

section \<open>Run, pause and step\<close>

text \<open>
  Modelled from the spec: \<open>atomic_t::atomic_op\<close> (util/atomic.hpp is not part of the
  sources at hand), a single atomic read-modify-write. The function is applied to the
  value of the unit's \<open>state\<close>, the value it leaves is stored, and what it returns is
  returned.
\<close>

definition atomic_op ::
  "ptr \<Rightarrow> (cpu_flag set \<Rightarrow> 'r \<times> cpu_flag set) \<Rightarrow> debugger_frame \<Rightarrow> 'r \<times> debugger_frame" where
  "atomic_op cpu f s =
     (fst (f (state (heap s cpu))),
      s\<lparr>heap := (heap s)(cpu := (heap s cpu)\<lparr>state := snd (f (state (heap s cpu)))\<rparr>)\<rparr>)"

text \<open>
  The lambda the run button hands to \<open>atomic_op\<close> (lines 147-159). It returns \<open>state\<close>
  after having changed it.
\<close>

definition run_or_pause :: "cpu_flag set \<Rightarrow> cpu_flag set \<times> cpu_flag set" where
  "run_or_pause state0 =
     (let state1 = (if state0 \<inter> s_pause_flags \<noteq> {}
                    then state0 - s_pause_flags
                    else state0 \<union> {dbg_pause})
      in (state1, state1))"

text \<open>The handler of the run button up to its call of \<open>UpdateUI\<close> (lines 143-166).\<close>

definition toggle_run_pause :: "debugger_frame \<Rightarrow> debugger_frame" where
  "toggle_run_pause s =
     (let r = get_cpu s
      in case fst r of
           None \<Rightarrow> snd r
         | Some cpu \<Rightarrow>
             let a = atomic_op cpu run_or_pause (snd r);
                 old = fst a
             in if \<not> (old \<inter> s_pause_flags \<noteq> {}) then emit (Notify cpu) (snd a) else snd a)"

text \<open>The handler of the run button (lines 141-168).\<close>

definition on_btn_run_clicked :: "debugger_frame \<Rightarrow> debugger_frame" where
  "on_btn_run_clicked s = UpdateUI (toggle_run_pause s)"

text \<open>The lambda \<open>DoStep\<close> hands to \<open>atomic_op\<close> (lines 767-772).\<close>

definition step_flags :: "bool \<Rightarrow> cpu_flag set \<Rightarrow> unit \<times> cpu_flag set" where
  "step_flags should_step_over state0 =
     (let state1 = state0 - s_pause_flags
      in ((), if \<not> should_step_over then state1 \<union> {dbg_step} else state1))"

text \<open>\<open>DoStep\<close> up to its call of \<open>UpdateUI\<close> (lines 743-776).\<close>

definition step_unit :: "bool \<Rightarrow> debugger_frame \<Rightarrow> debugger_frame" where
  "step_unit stepOver s =
     (let r = get_cpu s; s1 = snd r
      in case fst r of
           None \<Rightarrow> s1
         | Some cpu \<Rightarrow>
             let should_step_over = (stepOver \<and> id_type (heap s1 cpu) = 1)
             in if state (heap s1 cpu) \<inter> s_pause_flags \<noteq> {}
                then
                  let s2 =
                        (if should_step_over
                         then
                           let current_instruction_pc = get_pc (heap s1 cpu);
                               next_instruction_pc = current_instruction_pc + 4;
                               s1a = AddBreakpoint next_instruction_pc s1;
                               s1b = (if m_last_step_over_breakpoint s1a \<noteq> umax
                                      then RemoveBreakpoint next_instruction_pc s1a
                                      else s1a)
                           in s1b\<lparr>m_last_step_over_breakpoint := next_instruction_pc\<rparr>
                         else s1);
                      s3 = snd (atomic_op cpu (step_flags should_step_over) s2)
                  in emit (Notify cpu) s3
                else s1)"

text \<open>\<open>debugger_frame::DoStep\<close> (lines 741-779).\<close>

definition DoStep :: "bool \<Rightarrow> debugger_frame \<Rightarrow> debugger_frame" where
  "DoStep stepOver s = UpdateUI (step_unit stepOver s)"

section \<open>Address navigation\<close>

text \<open>The value of a hexadecimal digit, \<open>None\<close> for any other character.\<close>

definition hex_digit :: "char \<Rightarrow> nat option" where
  "hex_digit c =
     (let n = (of_char c :: nat)
      in if 48 \<le> n \<and> n \<le> 57 then Some (n - 48)
         else if 97 \<le> n \<and> n \<le> 102 then Some (n - 87)
         else if 65 \<le> n \<and> n \<le> 70 then Some (n - 55)
         else None)"

text \<open>\<open>QRegExp("^[A-Fa-f0-9]+$").exactMatch(expression)\<close>\<close>

definition exactMatch_hex :: "string \<Rightarrow> bool" where
  "exactMatch_hex expression = (expression \<noteq> [] \<and> list_all (\<lambda>c. hex_digit c \<noteq> None) expression)"

fun hex_value :: "nat \<Rightarrow> string \<Rightarrow> nat option" where
  "hex_value acc [] = Some acc"
| "hex_value acc (c # cs) =
     (case hex_digit c of None \<Rightarrow> None | Some d \<Rightarrow> hex_value (16 * acc + d) cs)"

text \<open>
  Modelled from the spec: \<open>QString::toULong(&ok, 16)\<close> (Qt is not part of the sources at
  hand). The text is hexadecimal with an optional \<open>0x\<close> prefix; it parses when at least
  one digit follows the prefix, every character is a hexadecimal digit and the value fits
  an \<open>unsigned long\<close> of the given width. \<open>None\<close> is \<open>ok = false\<close>.
\<close>

definition QString_toULong :: "nat \<Rightarrow> string \<Rightarrow> u64 option" where
  "QString_toULong bits str =
     (let digits = (if take 2 str = ''0x'' \<or> take 2 str = ''0X'' then drop 2 str else str)
      in if digits = [] then None
         else case hex_value 0 digits of
                None \<Rightarrow> None
              | Some v \<Rightarrow> if v < 2 ^ bits then Some (of_nat v) else None)"

text \<open>The text \<open>EvaluateExpression\<close> hands to the parser (line 714).\<close>

definition fixed_expression :: "string \<Rightarrow> string" where
  "fixed_expression expression =
     (if exactMatch_hex expression then ''0x'' @ expression else expression)"

text \<open>\<open>debugger_frame::EvaluateExpression\<close> (lines 709-720).\<close>

definition EvaluateExpression :: "string \<Rightarrow> debugger_frame \<Rightarrow> u64 \<times> debugger_frame" where
  "EvaluateExpression expression s =
     (case QString_toULong (ulong_bits s) (fixed_expression expression) of
        Some res \<Rightarrow> (res, s)
      | None \<Rightarrow>
          (let r = get_cpu s
           in case fst r of
                Some thread \<Rightarrow> (ucast (get_pc (heap (snd r) thread)), snd r)
              | None \<Rightarrow> (0, snd r)))"

text \<open>
  \<open>debugger_frame::ShowGotoAddressDialog\<close> (lines 647-707): the two calls of \<open>get_cpu\<close>
  that set the dialog up, and, when the dialog is accepted with a text, the navigation to
  the evaluated address, cut to \<open>u32\<close>.
\<close>

definition ShowGotoAddressDialog :: "string option \<Rightarrow> debugger_frame \<Rightarrow> debugger_frame" where
  "ShowGotoAddressDialog accepted s =
     (let s1 = snd (get_cpu s);
          s2 = snd (get_cpu s1)
      in case accepted of
           None \<Rightarrow> s2
         | Some text0 \<Rightarrow>
             let r = EvaluateExpression text0 s2
             in emit (ShowAddress (ucast (fst r)) False) (snd r))"

section \<open>Navigating to the predicted next instruction\<close>

text \<open>
  \<open>std::basic_string_view<u32>(res.data(), 2).find_last_not_of(UINT32_MAX)\<close>: the last
  position of \<open>res\<close> that holds an address, \<open>None\<close> for \<open>npos\<close>.
\<close>

definition find_last_not_of_umax :: "u32 \<times> u32 \<Rightarrow> nat option" where
  "find_last_not_of_umax res =
     (if snd res \<noteq> umax then Some 1 else if fst res \<noteq> umax then Some 0 else None)"

text \<open>
  The switch on the unit kind under \<open>Qt::Key_N\<close> (lines 360-379): the predicted targets and
  the frame, in which every read of instruction memory is recorded.
\<close>

definition predict_targets :: "ptr \<Rightarrow> u32 \<Rightarrow> debugger_frame \<Rightarrow> (u32 \<times> u32) \<times> debugger_frame" where
  "predict_targets cpu pc0 s =
     (if id_type (heap s cpu) = 2
      then (spu_op_branch_targets s pc0 (spu_ls s cpu pc0), emit (LsRead cpu pc0) s)
      else if id_type (heap s cpu) = 1
      then
        (if vm_page_executable s pc0
         then (case vm_try_access s pc0 of
                 Some op \<Rightarrow> (ppu_op_branch_targets s pc0 op, emit (VmAccess pc0) s)
               | None \<Rightarrow> ((umax, umax), emit (VmAccess pc0) s))
         else ((umax, umax), s))
      else ((umax, umax), s))"

text \<open>
  The address of the marked instruction (lines 294-295): the row \<open>i\<close> of the disassembly
  list when one is current, the unit's program counter otherwise, cut to the unit's
  address range.
\<close>

definition marked_pc :: "u32 \<Rightarrow> int \<Rightarrow> cpu_thread \<Rightarrow> u32" where
  "marked_pc list_m_pc i cpu =
     (let address_limits = (if id_type cpu = 2 then 0x3fffc else NOT 3)
      in (if i \<ge> 0 then list_m_pc + word_of_int (i * 4) else get_pc cpu) AND address_limits)"

text \<open>
  \<open>debugger_frame::keyPressEvent\<close> (lines 241-404) for the key \<open>Qt::Key_N\<close>. What it reads
  from the widgets is given: whether the window is active, whether Ctrl is held, and the
  disassembly list's first address \<open>m_pc\<close> and current row \<open>i\<close>.
\<close>

definition keyPressEvent_Key_N ::
  "bool \<Rightarrow> bool \<Rightarrow> u32 \<Rightarrow> int \<Rightarrow> debugger_frame \<Rightarrow> debugger_frame" where
  "keyPressEvent_Key_N isActiveWindow control list_m_pc i s =
     (if \<not> isActiveWindow then s
      else
        let r = get_cpu s; s1 = snd r
        in case fst r of
             None \<Rightarrow> s1
           | Some cpu \<Rightarrow>
               let pc0 = marked_pc list_m_pc i (heap s1 cpu)
               in if control then s1
                  else
                    let p = predict_targets cpu pc0 s1;
                        res = fst p
                    in case find_last_not_of_umax res of
                         None \<Rightarrow> snd p
                       | Some pos \<Rightarrow>
                           emit (ShowAddress
                                  ((if pos = 0 then fst res else snd res)
                                   - word_of_int (max i 0 * 4)) True)
                             (snd p))"

section \<open>Properties\<close>

text \<open>
  The frame holds at most one of a CPU unit and the RSX unit: \<open>OnSelectUnit\<close> clears both
  members before it binds one of them, and nothing else sets them.
\<close>

definition selection_inv :: "debugger_frame \<Rightarrow> bool" where
  "selection_inv s = (m_cpu s = None \<or> m_rsx s = None)"

text \<open>The two tests of \<open>get_cpu\<close>: the held CPU unit is usable; the held RSX unit, if usable.\<close>

definition cpu_valid :: "debugger_frame \<Rightarrow> bool" where
  "cpu_valid s =
     (case m_cpu s of
        None \<Rightarrow> False
      | Some p \<Rightarrow> \<not> (wait \<in> state (heap s p) \<and> exit \<in> state (heap s p)))"

definition rsx_valid :: "debugger_frame \<Rightarrow> ptr option" where
  "rsx_valid s =
     (case m_rsx s of
        None \<Rightarrow> None
      | Some r \<Rightarrow> if g_fxo_rsx s = Some r \<and> ctrl (heap s r) then Some r else None)"

text \<open>The condition under which \<open>DoUpdate\<close> retires the step-over breakpoint (line 611).\<close>

definition retire_due :: "debugger_frame \<Rightarrow> bool" where
  "retire_due s =
     (case fst (get_cpu s) of
        None \<Rightarrow> False
      | Some cpu \<Rightarrow> m_last_step_over_breakpoint s \<noteq> umax
          \<and> get_pc (heap s cpu) = m_last_step_over_breakpoint s)"

text \<open>The wake notifications in the trace, newest first.\<close>

definition wakes :: "debugger_frame \<Rightarrow> ui_event list" where
  "wakes s = filter is_Notify (events s)"

text \<open>The navigation requests to the disassembly list in the trace.\<close>

definition shown :: "debugger_frame \<Rightarrow> ui_event list" where
  "shown s = filter is_ShowAddress (events s)"

text \<open>
  The breakpoint set with the pending step-over marker, and what a poll may do to the
  pair: nothing, or retire the pending breakpoint.
\<close>

definition bp_side :: "debugger_frame \<Rightarrow> u32 set \<times> u32" where
  "bp_side s = (m_breakpoints s, m_last_step_over_breakpoint s)"

definition retired :: "u32 set \<times> u32 \<Rightarrow> u32 set \<times> u32 \<Rightarrow> bool" where
  "retired b b' = (b' = b \<or> (snd b \<noteq> umax \<and> b' = (fst b - {bp_normalize (snd b)}, umax)))"

text \<open>
  The same, with the unit named: a poll retires the pending breakpoint only where the unit
  it resolves afterwards has its program counter at the breakpoint's address.
\<close>

definition retired_at :: "debugger_frame \<Rightarrow> debugger_frame \<Rightarrow> bool" where
  "retired_at s s' =
     (bp_side s' = bp_side s
      \<or> snd (bp_side s) \<noteq> umax
        \<and> bp_side s' = (fst (bp_side s) - {bp_normalize (snd (bp_side s))}, umax)
        \<and> (\<exists>cpu. fst (get_cpu s') = Some cpu \<and> get_pc (heap s' cpu) = snd (bp_side s)))"

subsection \<open>Example frames\<close>

text \<open>
  A session with one PPU thread, created as object 1, paused by the debugger at 0x1000 and
  selected in the frame; the poll has seen it in this state.
\<close>

definition ppu_paused :: cpu_thread where
  "ppu_paused =
     \<lparr>cpu_id = 0x01000000, state = {dbg_pause}, pc = 0x1000, name = ''PPU'', ctrl = False\<rparr>"

definition frame_ppu :: debugger_frame where
  "frame_ppu =
     \<lparr>heap = (\<lambda>p. ppu_paused), alive = (\<lambda>p. p = 1),
      idm_ppu = [(0x01000000, 1)], idm_spu = [], g_fxo_rsx = None,
      g_threads_created = 1, g_threads_deleted = 0, Emu_status = running,
      vm_page_executable = (\<lambda>a. False), vm_try_access = (\<lambda>a. None), spu_ls = (\<lambda>p a. 0),
      ppu_op_branch_targets = (\<lambda>a op. (a + 4, umax)),
      spu_op_branch_targets = (\<lambda>a op. (a + 4, umax)),
      sizeof_ppu_thread = 3, sizeof_spu_thread = 2, sizeof_cpu_thread = 1, ulong_bits = 64,
      m_breakpoints = {}, m_cpu = Some 1, m_rsx = None, m_disasm = Some PPUDisAsm,
      m_last_pc = 0x1000, m_last_query_state = Some (3, ppu_paused),
      m_last_step_over_breakpoint = umax,
      m_threads_created = 1, m_threads_deleted = 0, m_emu_state = running,
      choice_items = [(NoThreadString, NoData), (''PPU'', WeakItem (Some 1))],
      choice_index = 1, events = []\<rparr>"

text \<open>The same session after the thread has acknowledged its exit.\<close>

definition frame_gone :: debugger_frame where
  "frame_gone = frame_ppu\<lparr>heap := (\<lambda>p. ppu_paused\<lparr>state := {wait, exit}\<rparr>)\<rparr>"

text \<open>A session in which the RSX thread, object 7, is selected.\<close>

definition frame_rsx :: debugger_frame where
  "frame_rsx =
     frame_ppu\<lparr>heap := (\<lambda>p. ppu_paused\<lparr>cpu_id := 0x55555555, ctrl := True\<rparr>),
       g_fxo_rsx := Some 7, m_cpu := None, m_rsx := Some 7,
       m_disasm := Some (RSXDisAsm (Some 7))\<rparr>"

text \<open>The session with the "No Thread" entry selected.\<close>

definition frame_none :: debugger_frame where
  "frame_none = frame_ppu\<lparr>m_cpu := None, m_disasm := None, choice_index := 0\<rparr>"

text \<open>The thread has come back to 0x1000, where a step-over breakpoint is pending.\<close>

definition frame_returned :: debugger_frame where
  "frame_returned =
     frame_ppu\<lparr>m_breakpoints := {0x1000}, m_last_step_over_breakpoint := 0x1000\<rparr>"

text \<open>
  A session with a second thread, the SPU thread 2, which is selected and runs. A step-over
  of the PPU thread has left its breakpoint pending at 0x10004; the SPU thread has reached
  that address of its local storage since the last poll.
\<close>

definition spu_running :: cpu_thread where
  "spu_running =
     \<lparr>cpu_id = 0x02000000, state = {}, pc = 0x10004, name = ''SPU'', ctrl = False\<rparr>"

definition frame_spu :: debugger_frame where
  "frame_spu =
     frame_ppu\<lparr>heap := (\<lambda>p. if p = 2 then spu_running else ppu_paused\<lparr>state := {}, pc := 0x20000\<rparr>),
       alive := (\<lambda>p. p = 1 \<or> p = 2), idm_spu := [(0x02000000, 2)],
       g_threads_created := 2, m_threads_created := 2,
       m_breakpoints := {0x10004}, m_cpu := Some 2, m_disasm := Some (SPUDisAsm 2),
       m_last_pc := 0x10000, m_last_query_state := Some (2, spu_running\<lparr>pc := 0x10000\<rparr>),
       m_last_step_over_breakpoint := 0x10004,
       choice_items := [(NoThreadString, NoData), (''PPU'', WeakItem (Some 1)),
                        (''SPU'', WeakItem (Some 2))],
       choice_index := 2\<rparr>"

text \<open>The same session with the breakpoint pending at 0x30000, where no thread is.\<close>

definition frame_spu_away :: debugger_frame where
  "frame_spu_away =
     frame_spu\<lparr>m_breakpoints := {0x30000}, m_last_step_over_breakpoint := 0x30000\<rparr>"

text \<open>A step-over breakpoint is pending at 0x2004 while the thread is paused at 0x1000.\<close>

definition frame_pending :: debugger_frame where
  "frame_pending =
     frame_ppu\<lparr>m_breakpoints := {0x2004}, m_last_step_over_breakpoint := 0x2004\<rparr>"


subsection \<open>Resolving the current unit\<close>

lemma get_cpu_eq:
  "get_cpu s = (if cpu_valid s then (m_cpu s, s) else (rsx_valid s, s\<lparr>m_rsx := rsx_valid s\<rparr>))"
proof -
  have v: "(case m_cpu s of None \<Rightarrow> False
            | Some p \<Rightarrow> state (heap s p) \<union> {wait} \<union> {exit} \<noteq> state (heap s p)) = cpu_valid s"
    by (cases "m_cpu s") (auto simp add: cpu_valid_def)
  show ?thesis
  proof (cases "m_rsx s")
    case None
    then show ?thesis
      unfolding get_cpu_def v
      by (cases "g_fxo_rsx s") (simp_all add: rsx_valid_def Let_def)
  next
    case (Some r)
    then show ?thesis
      unfolding get_cpu_def v
      by (cases "g_fxo_rsx s = Some r"; cases "ctrl (heap s r)")
         (simp_all add: rsx_valid_def Let_def)
  qed
qed

lemma cpu_valid_m_rsx [simp]: "cpu_valid (s\<lparr>m_rsx := r\<rparr>) = cpu_valid s"
  by (cases "m_cpu s") (simp_all add: cpu_valid_def)

lemma rsx_valid_idem [simp]: "rsx_valid (s\<lparr>m_rsx := rsx_valid s\<rparr>) = rsx_valid s"
  by (simp add: rsx_valid_def split: option.splits)

lemma get_cpu_idem: "get_cpu (snd (get_cpu s)) = get_cpu s"
  by (simp add: get_cpu_eq)

lemma fst_get_cpu: "fst (get_cpu s) = (if cpu_valid s then m_cpu s else rsx_valid s)"
  by (simp add: get_cpu_eq)

lemma get_cpu_frame_ppu: "fst (get_cpu frame_ppu) = Some 1"
  by (simp add: fst_get_cpu cpu_valid_def rsx_valid_def frame_ppu_def ppu_paused_def)

lemma get_cpu_frame_none: "fst (get_cpu frame_none) = None"
  by (simp add: fst_get_cpu cpu_valid_def rsx_valid_def frame_none_def frame_ppu_def)

text \<open>
  Claim C5. \<open>get_cpu\<close> resolves to no unit when the held CPU unit has both its wait and its
  exit flag set. When the RSX unit is held, it resolves to that unit exactly if the
  registry's current instance is the held pointer and the instance's \<open>ctrl\<close> is non-null,
  and to no unit otherwise. The frame holds one kind of unit at a time (\<open>selection_inv\<close>).
\<close>

theorem get_cpu_resolves:
  assumes "selection_inv s"
  shows "(m_cpu s = Some p \<and> wait \<in> state (heap s p) \<and> exit \<in> state (heap s p)
            \<longrightarrow> fst (get_cpu s) = None)
       \<and> (m_rsx s = Some r
            \<longrightarrow> fst (get_cpu s)
                  = (if g_fxo_rsx s = Some r \<and> ctrl (heap s r) then Some r else None))"
proof (intro conjI impI)
  assume "m_cpu s = Some p \<and> wait \<in> state (heap s p) \<and> exit \<in> state (heap s p)"
  with assms show "fst (get_cpu s) = None"
    by (simp add: fst_get_cpu cpu_valid_def rsx_valid_def selection_inv_def)
next
  assume "m_rsx s = Some r"
  with assms
  show "fst (get_cpu s) = (if g_fxo_rsx s = Some r \<and> ctrl (heap s r) then Some r else None)"
    by (simp add: fst_get_cpu cpu_valid_def rsx_valid_def selection_inv_def)
qed

theorem get_cpu_resolves_witness:
  "selection_inv frame_gone \<and> selection_inv frame_rsx
   \<and> fst (get_cpu frame_gone) = None \<and> fst (get_cpu frame_rsx) = Some 7"
proof -
  have a: "selection_inv frame_gone"
    by (simp add: selection_inv_def frame_gone_def frame_ppu_def)
  have b: "selection_inv frame_rsx"
    by (simp add: selection_inv_def frame_rsx_def frame_ppu_def)
  have "fst (get_cpu frame_gone) = None"
    using get_cpu_resolves [OF a, of 1 0] by (simp add: frame_gone_def frame_ppu_def)
  moreover have "fst (get_cpu frame_rsx) = Some 7"
    using get_cpu_resolves [OF b, of 0 7] by (simp add: frame_rsx_def frame_ppu_def)
  ultimately show ?thesis
    using a b by simp
qed

subsection \<open>Address navigation\<close>

lemma fixed_expression_hex:
  "exactMatch_hex t \<Longrightarrow> fixed_expression (''0x'' @ t) = fixed_expression t"
  by (simp add: fixed_expression_def exactMatch_hex_def hex_digit_def)

text \<open>
  Claim C8. A text of hexadecimal digits only evaluates to what the same text with the
  prefix \<open>0x\<close> evaluates to; \<open>1004\<close> and \<open>0x1004\<close> both give 0x1004 (an
  \<open>unsigned long\<close> has at least 32 bits); and for every text that fails to parse, the
  evaluation is the selected unit's current program counter.
\<close>

theorem EvaluateExpression_hex:
  "(exactMatch_hex t \<longrightarrow> EvaluateExpression (''0x'' @ t) s = EvaluateExpression t s)
   \<and> (32 \<le> ulong_bits s \<longrightarrow>
         fst (EvaluateExpression ''1004'' s) = 0x1004
       \<and> fst (EvaluateExpression ''0x1004'' s) = 0x1004)
   \<and> (QString_toULong (ulong_bits s) (fixed_expression expression) = None
        \<and> fst (get_cpu s) = Some cpu
        \<longrightarrow> fst (EvaluateExpression expression s) = ucast (get_pc (heap s cpu)))"
proof (intro conjI impI)
  assume "exactMatch_hex t"
  then show "EvaluateExpression (''0x'' @ t) s = EvaluateExpression t s"
    by (simp only: EvaluateExpression_def fixed_expression_hex)
next
  assume b: "32 \<le> ulong_bits s"
  have "(2::nat) ^ 32 \<le> 2 ^ ulong_bits s"
    using b by (rule power_increasing) simp
  then have lt: "(4100::nat) < 2 ^ ulong_bits s"
    by simp
  have p: "QString_toULong (ulong_bits s) ''0x1004'' = Some 0x1004"
    using lt by (simp add: QString_toULong_def hex_digit_def)
  show "fst (EvaluateExpression ''1004'' s) = 0x1004"
    using p by (simp add: EvaluateExpression_def fixed_expression_def exactMatch_hex_def hex_digit_def)
  show "fst (EvaluateExpression ''0x1004'' s) = 0x1004"
    using p by (simp add: EvaluateExpression_def fixed_expression_def exactMatch_hex_def hex_digit_def)
next
  assume "QString_toULong (ulong_bits s) (fixed_expression expression) = None
            \<and> fst (get_cpu s) = Some cpu"
  then show "fst (EvaluateExpression expression s) = ucast (get_pc (heap s cpu))"
    by (simp add: EvaluateExpression_def Let_def)
qed

theorem EvaluateExpression_hex_witness:
  "exactMatch_hex ''1004'' \<and> 32 \<le> ulong_bits frame_ppu
   \<and> QString_toULong (ulong_bits frame_ppu) (fixed_expression ''12g'') = None
   \<and> fst (get_cpu frame_ppu) = Some 1
   \<and> EvaluateExpression ''0x1004'' frame_ppu = EvaluateExpression ''1004'' frame_ppu
   \<and> fst (EvaluateExpression ''1004'' frame_ppu) = 0x1004
   \<and> fst (EvaluateExpression ''12g'' frame_ppu) = 0x1000"
proof -
  have a: "exactMatch_hex ''1004''"
    by (simp add: exactMatch_hex_def hex_digit_def)
  have b: "32 \<le> ulong_bits frame_ppu"
    by (simp add: frame_ppu_def)
  have c: "QString_toULong (ulong_bits frame_ppu) (fixed_expression ''12g'') = None"
    by (simp add: QString_toULong_def fixed_expression_def exactMatch_hex_def hex_digit_def)
  have d: "ucast (get_pc (heap frame_ppu 1)) = (0x1000 :: u64)"
    by (simp add: frame_ppu_def ppu_paused_def get_pc_def)
  show ?thesis
    using EvaluateExpression_hex [of "''1004''" frame_ppu "''12g''" 1] a b c d get_cpu_frame_ppu
    by simp
qed

text \<open>
  Claim C10. When the text fails to parse and \<open>get_cpu\<close> resolves to no unit,
  \<open>EvaluateExpression\<close> returns 0, and the accepted dialog navigates to address 0.
\<close>

theorem EvaluateExpression_no_unit:
  assumes "QString_toULong (ulong_bits s) (fixed_expression expression) = None"
    and "fst (get_cpu s) = None"
  shows "fst (EvaluateExpression expression s) = 0
       \<and> events (ShowGotoAddressDialog (Some expression) s) = ShowAddress 0 False # events s"
  using assms
  by (simp add: EvaluateExpression_def ShowGotoAddressDialog_def Let_def get_cpu_idem emit_def)

theorem EvaluateExpression_no_unit_witness:
  "QString_toULong (ulong_bits frame_none) (fixed_expression ''0x'') = None
   \<and> fst (get_cpu frame_none) = None
   \<and> fst (EvaluateExpression ''0x'' frame_none) = 0
   \<and> events (ShowGotoAddressDialog (Some ''0x'') frame_none) = [ShowAddress 0 False]"
proof -
  have a: "QString_toULong (ulong_bits frame_none) (fixed_expression ''0x'') = None"
    by (simp add: QString_toULong_def fixed_expression_def exactMatch_hex_def hex_digit_def)
  have e: "events frame_none = []"
    by (simp add: frame_none_def frame_ppu_def)
  show ?thesis
    using EvaluateExpression_no_unit [OF a get_cpu_frame_none] a get_cpu_frame_none e by simp
qed

subsection \<open>Selecting the unit that is already bound\<close>

text \<open>
  Claim C7. When the current entry carries a weak pointer to the unit the frame has bound
  and the emulation state the frame has recorded is not stopped, \<open>OnSelectUnit\<close> changes
  nothing: no member, no disassembler, and no call into the lists or panels.
\<close>

theorem OnSelectUnit_same_unit:
  assumes "currentData s = WeakItem (Some p)"
    and "m_cpu s = Some p"
    and "m_emu_state s \<noteq> stopped"
  shows "OnSelectUnit s = s"
proof -
  have "\<not> choice_count s < 1"
    using assms(1) by (auto simp add: currentData_def split: if_splits)
  then show ?thesis
    using assms by (simp add: OnSelectUnit.simps value_weak_def value_render_def)
qed

theorem OnSelectUnit_same_unit_witness:
  "currentData frame_ppu = WeakItem (Some 1) \<and> m_cpu frame_ppu = Some 1
   \<and> m_emu_state frame_ppu \<noteq> stopped \<and> OnSelectUnit frame_ppu = frame_ppu"
proof -
  have a: "currentData frame_ppu = WeakItem (Some 1)"
    by (simp add: currentData_def choice_count_def frame_ppu_def)
  have b: "m_cpu frame_ppu = Some 1" and c: "m_emu_state frame_ppu \<noteq> stopped"
    by (simp_all add: frame_ppu_def)
  show ?thesis
    using OnSelectUnit_same_unit [OF a b c] a b c by simp
qed

subsection \<open>Retiring the step-over breakpoint\<close>

lemma ShowPC_keeps_breakpoints [simp]:
  "m_breakpoints (ShowPC s) = m_breakpoints s"
  "m_last_step_over_breakpoint (ShowPC s) = m_last_step_over_breakpoint s"
  by (simp_all add: ShowPC_def emit_def Let_def)

lemma WritePanels_keeps_breakpoints [simp]:
  "m_breakpoints (WritePanels s) = m_breakpoints s"
  "m_last_step_over_breakpoint (WritePanels s) = m_last_step_over_breakpoint s"
  by (simp_all add: WritePanels_def emit_def Let_def split: option.splits)

lemma DoUpdate_m_breakpoints:
  "m_breakpoints (DoUpdate s) =
     (if retire_due s then m_breakpoints s - {bp_normalize (m_last_step_over_breakpoint s)}
      else m_breakpoints s)"
  by (cases "fst (get_cpu s)")
     (simp_all add: retire_due_def DoUpdate_def RemoveBreakpoint_def Let_def)

lemma DoUpdate_m_last:
  "m_last_step_over_breakpoint (DoUpdate s) =
     (if retire_due s then umax else m_last_step_over_breakpoint s)"
  by (cases "fst (get_cpu s)")
     (simp_all add: retire_due_def DoUpdate_def RemoveBreakpoint_def Let_def umax_def)

text \<open>
  Claim C4. On a poll (\<open>DoUpdate\<close>), if a step-over breakpoint is pending and its address
  is the selected unit's program counter, the breakpoint is removed from the breakpoint
  set and the pending marker is cleared; otherwise the poll leaves the marker and the
  breakpoint set as they are.
\<close>

theorem DoUpdate_retires:
  "(retire_due s \<longrightarrow>
       m_breakpoints (DoUpdate s)
         = m_breakpoints s - {bp_normalize (m_last_step_over_breakpoint s)}
     \<and> \<not> HasBreakpoint (m_last_step_over_breakpoint s) (DoUpdate s)
     \<and> m_last_step_over_breakpoint (DoUpdate s) = umax)
   \<and> (\<not> retire_due s \<longrightarrow>
       m_last_step_over_breakpoint (DoUpdate s) = m_last_step_over_breakpoint s
     \<and> m_breakpoints (DoUpdate s) = m_breakpoints s)"
  by (simp add: DoUpdate_m_breakpoints DoUpdate_m_last HasBreakpoint_def)

theorem DoUpdate_retires_witness:
  "retire_due frame_returned \<and> m_breakpoints (DoUpdate frame_returned) = {}
   \<and> m_last_step_over_breakpoint (DoUpdate frame_returned) = umax
   \<and> \<not> retire_due frame_ppu \<and> m_breakpoints (DoUpdate frame_ppu) = {}
   \<and> m_last_step_over_breakpoint (DoUpdate frame_ppu) = umax"
proof -
  have g: "fst (get_cpu frame_returned) = Some 1"
    by (simp add: fst_get_cpu cpu_valid_def rsx_valid_def frame_returned_def frame_ppu_def
          ppu_paused_def)
  have a: "retire_due frame_returned"
    by (simp add: retire_due_def g)
       (simp add: frame_returned_def frame_ppu_def ppu_paused_def get_pc_def umax_def)
  have b: "\<not> retire_due frame_ppu"
    by (simp add: retire_due_def get_cpu_frame_ppu) (simp add: frame_ppu_def)
  have c: "m_breakpoints frame_returned
             - {bp_normalize (m_last_step_over_breakpoint frame_returned)} = {}"
    by (simp add: frame_returned_def frame_ppu_def bp_normalize_def)
  have d: "m_breakpoints frame_ppu = {}" "m_last_step_over_breakpoint frame_ppu = umax"
    by (simp_all add: frame_ppu_def)
  show ?thesis
    using DoUpdate_retires [of frame_returned] DoUpdate_retires [of frame_ppu] a b c d by simp
qed

subsection \<open>The poll cycle\<close>

text \<open>
  Whatever relation between the frame before and after is reflexive, transitive and kept
  by each piece of the cycle is kept by \<open>UpdateUI\<close>, \<open>UpdateUnitList\<close> and
  \<open>OnSelectUnit\<close>.
\<close>

lemma poll_cycle_relation:
  fixes R :: "debugger_frame \<Rightarrow> debugger_frame \<Rightarrow> bool"
  assumes refl: "\<And>s. R s s"
    and trans: "\<And>a b c. R a b \<Longrightarrow> R b c \<Longrightarrow> R a c"
    and poll: "\<And>s. R s (poll_unit_state s)"
    and rebuild: "\<And>s. R s (rebuild_unit_list (Emu_status s) (record_counters s))"
    and update: "\<And>s. R s (emit ChoiceUpdate s)"
    and unbind: "\<And>s. R s ((emit (BpListUpdateCPUData None None)
                              (emit (ListUpdateCPUData None None) s))
                            \<lparr>m_disasm := None, m_cpu := None\<rparr>)"
    and render: "\<And>s. R s (snd (render_selected s))"
    and bind: "\<And>w r s. R s (bind_selected_unit w r s)"
  shows "R s (UpdateUI s)" and "R s (UpdateUnitList s)" and "R s (OnSelectUnit s)"
proof (induction s and s and s rule: UpdateUI_UpdateUnitList_OnSelectUnit.induct)
  case (1 s)
  have "R (UpdateUnitList s) (poll_unit_state (UpdateUnitList s))"
    by (rule poll)
  with 1 show ?case
    by (simp add: UpdateUI.simps trans [of s "UpdateUnitList s"])
next
  case (2 s)
  show ?case
  proof (cases "targets_changed s")
    case True
    let ?c = "rebuild_unit_list (Emu_status s) (record_counters s)"
    have "R s ?c" by (rule rebuild)
    moreover have "R ?c (OnSelectUnit ?c)" using 2 True by simp
    moreover have "R (OnSelectUnit ?c) (emit ChoiceUpdate (OnSelectUnit ?c))" by (rule update)
    ultimately have "R s (emit ChoiceUpdate (OnSelectUnit ?c))"
      by (blast intro: trans)
    then show ?thesis
      using True by (simp add: UpdateUnitList.simps)
  next
    case False
    then show ?thesis
      by (simp add: UpdateUnitList.simps refl)
  qed
next
  case (3 s)
  let ?b = "bind_selected_unit (value_weak (currentData s)) (value_render (currentData s))
              (snd (render_selected s))"
  consider (empty) "choice_count s < 1"
    | (same) "\<not> choice_count s < 1" "m_emu_state s \<noteq> stopped \<and> value_render (currentData s) = None
              \<and> value_weak (currentData s) = m_cpu s"
    | (rsx) "\<not> choice_count s < 1" "\<not> (m_emu_state s \<noteq> stopped \<and> value_render (currentData s) = None
              \<and> value_weak (currentData s) = m_cpu s)" "fst (render_selected s)"
    | (bind) "\<not> choice_count s < 1" "\<not> (m_emu_state s \<noteq> stopped \<and> value_render (currentData s) = None
              \<and> value_weak (currentData s) = m_cpu s)" "\<not> fst (render_selected s)"
    by blast
  then show ?case
  proof cases
    case empty
    then show ?thesis
      using unbind [of s] by (simp add: OnSelectUnit.simps)
  next
    case same
    then show ?thesis
      using refl [of s] by (simp add: OnSelectUnit.simps)
  next
    case rsx
    then show ?thesis
      using render [of s] by (simp add: OnSelectUnit.simps refl)
  next
    case bind
    have "R s (snd (render_selected s))" by (rule render)
    moreover have "R (snd (render_selected s)) ?b" by (rule assms(8))
    moreover have "R ?b (UpdateUI ?b)" using 3 bind by simp
    ultimately have "R s (UpdateUI ?b)"
      by (blast intro: trans)
    then show ?thesis
      using bind by (simp add: OnSelectUnit.simps refl)
  qed
qed

text \<open>The cycle leaves the emulator's side alone; in particular no unit's flags change.\<close>

lemma emulator_side_UpdateUI:
  "emulator_side (UpdateUI s) = emulator_side s"
  "emulator_side (UpdateUnitList s) = emulator_side s"
  "emulator_side (OnSelectUnit s) = emulator_side s"
proof -
  let ?R = "\<lambda>s s'. emulator_side s' = emulator_side s"
  show "emulator_side (UpdateUI s) = emulator_side s"
    by (rule poll_cycle_relation(1) [where R = ?R]) (simp_all add: emit_def)
  show "emulator_side (UpdateUnitList s) = emulator_side s"
    by (rule poll_cycle_relation(2) [where R = ?R]) (simp_all add: emit_def)
  show "emulator_side (OnSelectUnit s) = emulator_side s"
    by (rule poll_cycle_relation(3) [where R = ?R]) (simp_all add: emit_def)
qed

lemma heap_UpdateUI [simp]: "heap (UpdateUI s) = heap s"
  using emulator_side_UpdateUI(1) [of s] by (simp add: emulator_side_def)

lemma UpdateUI_unchanged_targets: "\<not> targets_changed s \<Longrightarrow> UpdateUI s = poll_unit_state s"
  by (simp add: UpdateUI.simps UpdateUnitList.simps)

text \<open>The cycle wakes no unit.\<close>

lemma wakes_emit [simp]: "wakes (emit e s) = (if is_Notify e then e # wakes s else wakes s)"
  by (simp add: wakes_def emit_def)

lemma wakes_updates [simp]:
  "wakes (s\<lparr>heap := h\<rparr>) = wakes s"
  "wakes (s\<lparr>m_breakpoints := b\<rparr>) = wakes s"
  "wakes (s\<lparr>m_cpu := c\<rparr>) = wakes s"
  "wakes (s\<lparr>m_rsx := r\<rparr>) = wakes s"
  "wakes (s\<lparr>m_disasm := d\<rparr>) = wakes s"
  "wakes (s\<lparr>m_last_pc := p\<rparr>) = wakes s"
  "wakes (s\<lparr>m_last_query_state := q\<rparr>) = wakes s"
  "wakes (s\<lparr>m_last_step_over_breakpoint := l\<rparr>) = wakes s"
  "wakes (s\<lparr>m_threads_created := tc\<rparr>) = wakes s"
  "wakes (s\<lparr>m_threads_deleted := td\<rparr>) = wakes s"
  "wakes (s\<lparr>m_emu_state := es\<rparr>) = wakes s"
  "wakes (s\<lparr>choice_items := ci\<rparr>) = wakes s"
  "wakes (s\<lparr>choice_index := cx\<rparr>) = wakes s"
  by (simp_all add: wakes_def)

lemma wakes_get_cpu [simp]: "wakes (snd (get_cpu s)) = wakes s"
  by (simp add: wakes_def)

lemma wakes_ShowPC [simp]: "wakes (ShowPC s) = wakes s"
  by (simp add: ShowPC_def Let_def)

lemma wakes_WritePanels [simp]: "wakes (WritePanels s) = wakes s"
  by (simp add: WritePanels_def Let_def split: option.splits)

lemma wakes_DoUpdate [simp]: "wakes (DoUpdate s) = wakes s"
  by (simp add: DoUpdate_def RemoveBreakpoint_def Let_def)

lemma wakes_EnableButtons [simp]: "wakes (EnableButtons b s) = wakes s"
  by (simp add: EnableButtons_def Let_def)

lemma wakes_bind_selected_unit [simp]: "wakes (bind_selected_unit w r s) = wakes s"
  by (simp add: bind_selected_unit_def Let_def split: option.splits)

lemma wakes_render_selected [simp]: "wakes (snd (render_selected s)) = wakes s"
  by (simp add: render_selected_def Let_def split: option.splits)

lemma wakes_poll_unit_state [simp]: "wakes (poll_unit_state s) = wakes s"
  by (simp add: poll_unit_state_def Let_def split: option.splits)

lemma wakes_on_select [simp]: "wakes (on_select e old x s) = wakes s"
  by (simp add: on_select_def addItem_def setCurrentIndex_def Let_def)

lemma wakes_fold_on_select [simp]: "wakes (fold (on_select e old) xs s) = wakes s"
  by (induction xs arbitrary: s) simp_all

lemma wakes_rebuild_unit_list [simp]: "wakes (rebuild_unit_list e s) = wakes s"
  by (simp add: rebuild_unit_list_def addItem_def choice_clear_def setCurrentIndex_def Let_def
        split: option.splits)

lemma wakes_record_counters [simp]: "wakes (record_counters s) = wakes s"
  by (simp add: record_counters_def)

lemma wakes_UpdateUI:
  "wakes (UpdateUI s) = wakes s"
  "wakes (UpdateUnitList s) = wakes s"
  "wakes (OnSelectUnit s) = wakes s"
proof -
  let ?R = "\<lambda>s s'. wakes s' = wakes s"
  show "wakes (UpdateUI s) = wakes s"
    by (rule poll_cycle_relation(1) [where R = ?R]) simp_all
  show "wakes (UpdateUnitList s) = wakes s"
    by (rule poll_cycle_relation(2) [where R = ?R]) simp_all
  show "wakes (OnSelectUnit s) = wakes s"
    by (rule poll_cycle_relation(3) [where R = ?R]) simp_all
qed

text \<open>
  The cycle adds no breakpoint; it removes at most the pending step-over breakpoint, and
  then clears the marker.
\<close>

lemma retired_refl [simp]: "retired b b"
  by (simp add: retired_def)

lemma retired_trans: "retired a b \<Longrightarrow> retired b c \<Longrightarrow> retired a c"
  by (auto simp add: retired_def)

lemma bp_side_updates [simp]:
  "bp_side (s\<lparr>heap := h\<rparr>) = bp_side s"
  "bp_side (s\<lparr>m_cpu := c\<rparr>) = bp_side s"
  "bp_side (s\<lparr>m_rsx := r\<rparr>) = bp_side s"
  "bp_side (s\<lparr>m_disasm := d\<rparr>) = bp_side s"
  "bp_side (s\<lparr>m_last_pc := p\<rparr>) = bp_side s"
  "bp_side (s\<lparr>m_last_query_state := q\<rparr>) = bp_side s"
  "bp_side (s\<lparr>m_threads_created := tc\<rparr>) = bp_side s"
  "bp_side (s\<lparr>m_threads_deleted := td\<rparr>) = bp_side s"
  "bp_side (s\<lparr>m_emu_state := es\<rparr>) = bp_side s"
  "bp_side (s\<lparr>choice_items := ci\<rparr>) = bp_side s"
  "bp_side (s\<lparr>choice_index := cx\<rparr>) = bp_side s"
  "bp_side (s\<lparr>events := ev\<rparr>) = bp_side s"
  by (simp_all add: bp_side_def)

lemma bp_side_get_cpu [simp]: "bp_side (snd (get_cpu s)) = bp_side s"
  by (simp add: bp_side_def)

lemma bp_side_emit [simp]: "bp_side (emit e s) = bp_side s"
  by (simp add: emit_def)

lemma bp_side_EnableButtons [simp]: "bp_side (EnableButtons b s) = bp_side s"
  by (simp add: EnableButtons_def Let_def)

lemma bp_side_render_selected [simp]: "bp_side (snd (render_selected s)) = bp_side s"
  by (simp add: render_selected_def Let_def split: option.splits)

lemma bp_side_DoUpdate:
  "bp_side (DoUpdate s) =
     (if retire_due s then (fst (bp_side s) - {bp_normalize (snd (bp_side s))}, umax)
      else bp_side s)"
  by (simp add: bp_side_def DoUpdate_m_breakpoints DoUpdate_m_last)

lemma retire_due_pending: "retire_due s \<Longrightarrow> snd (bp_side s) \<noteq> umax"
  by (cases "fst (get_cpu s)") (simp_all add: retire_due_def bp_side_def)

lemma retired_DoUpdate: "bp_side s1 = bp_side s \<Longrightarrow> retired (bp_side s) (bp_side (DoUpdate s1))"
  using retire_due_pending [of s1] by (simp add: bp_side_DoUpdate retired_def)

lemma retired_bind_selected_unit: "retired (bp_side s) (bp_side (bind_selected_unit w r s))"
  unfolding bind_selected_unit_def Let_def
  by (rule retired_DoUpdate) (simp split: option.splits)

lemma retired_poll_unit_state: "retired (bp_side s) (bp_side (poll_unit_state s))"
proof (cases "fst (get_cpu s)")
  case None
  then show ?thesis
    by (simp add: poll_unit_state_def Let_def retired_DoUpdate)
next
  case (Some cpu)
  then show ?thesis
    by (simp add: poll_unit_state_def Let_def retired_DoUpdate)
qed

lemma bp_side_on_select [simp]: "bp_side (on_select e old x s) = bp_side s"
  by (simp add: on_select_def addItem_def setCurrentIndex_def Let_def)

lemma bp_side_fold_on_select [simp]: "bp_side (fold (on_select e old) xs s) = bp_side s"
  by (induction xs arbitrary: s) simp_all

lemma bp_side_rebuild_unit_list [simp]: "bp_side (rebuild_unit_list e s) = bp_side s"
  by (simp add: rebuild_unit_list_def addItem_def choice_clear_def setCurrentIndex_def Let_def
        split: option.splits)

lemma bp_side_record_counters [simp]: "bp_side (record_counters s) = bp_side s"
  by (simp add: record_counters_def)

lemma retired_UpdateUI:
  "retired (bp_side s) (bp_side (UpdateUI s))"
  "retired (bp_side s) (bp_side (UpdateUnitList s))"
  "retired (bp_side s) (bp_side (OnSelectUnit s))"
proof -
  let ?R = "\<lambda>s s'. retired (bp_side s) (bp_side s')"
  have t: "\<And>a b c. ?R a b \<Longrightarrow> ?R b c \<Longrightarrow> ?R a c"
    by (rule retired_trans)
  show "retired (bp_side s) (bp_side (UpdateUI s))"
    by (rule poll_cycle_relation(1) [where R = ?R])
       (simp_all add: t retired_poll_unit_state retired_bind_selected_unit)
  show "retired (bp_side s) (bp_side (UpdateUnitList s))"
    by (rule poll_cycle_relation(2) [where R = ?R])
       (simp_all add: t retired_poll_unit_state retired_bind_selected_unit)
  show "retired (bp_side s) (bp_side (OnSelectUnit s))"
    by (rule poll_cycle_relation(3) [where R = ?R])
       (simp_all add: t retired_poll_unit_state retired_bind_selected_unit)
qed

lemma cpu_valid_updates [simp]:
  "cpu_valid (s\<lparr>m_last_pc := p\<rparr>) = cpu_valid s"
  "cpu_valid (s\<lparr>m_last_query_state := q\<rparr>) = cpu_valid s"
  "cpu_valid (s\<lparr>m_breakpoints := b\<rparr>) = cpu_valid s"
  "cpu_valid (s\<lparr>m_last_step_over_breakpoint := l\<rparr>) = cpu_valid s"
  "cpu_valid (s\<lparr>events := ev\<rparr>) = cpu_valid s"
  by (cases "m_cpu s"; simp add: cpu_valid_def)+

lemma rsx_valid_updates [simp]:
  "rsx_valid (s\<lparr>m_last_pc := p\<rparr>) = rsx_valid s"
  "rsx_valid (s\<lparr>m_last_query_state := q\<rparr>) = rsx_valid s"
  "rsx_valid (s\<lparr>m_breakpoints := b\<rparr>) = rsx_valid s"
  "rsx_valid (s\<lparr>m_last_step_over_breakpoint := l\<rparr>) = rsx_valid s"
  "rsx_valid (s\<lparr>events := ev\<rparr>) = rsx_valid s"
  by (cases "m_rsx s"; simp add: rsx_valid_def)+

lemma cpu_valid_get_cpu [simp]: "cpu_valid (snd (get_cpu s)) = cpu_valid s"
  by (simp add: get_cpu_eq)

lemma rsx_valid_get_cpu [simp]: "rsx_valid (snd (get_cpu s)) = rsx_valid s"
  by (simp add: get_cpu_eq)

lemma retire_due_poll_arg [simp]:
  "retire_due ((snd (get_cpu s))\<lparr>m_last_query_state := q, m_last_pc := p\<rparr>) = retire_due s"
  by (simp add: retire_due_def fst_get_cpu cong: option.case_cong)

lemma bp_side_poll_not_due: "\<not> retire_due s \<Longrightarrow> bp_side (poll_unit_state s) = bp_side s"
  by (cases "fst (get_cpu s)") (simp_all add: poll_unit_state_def Let_def bp_side_DoUpdate)

lemma bp_side_poll_due:
  assumes "fst (get_cpu s) = Some cpu" and "m_last_pc s \<noteq> get_pc (heap s cpu)" and "retire_due s"
  shows "bp_side (poll_unit_state s) = (fst (bp_side s) - {bp_normalize (snd (bp_side s))}, umax)"
  using assms by (simp add: poll_unit_state_def Let_def bp_side_DoUpdate)

subsection \<open>The run button\<close>

lemma toggle_run_pause_heap:
  assumes "fst (get_cpu s) = Some cpu"
  shows "heap (toggle_run_pause s) = heap (snd (atomic_op cpu run_or_pause s))"
  using assms by (simp add: toggle_run_pause_def atomic_op_def emit_def Let_def)

lemma run_or_pause_clear:
  "(fst (run_or_pause st) \<inter> s_pause_flags = {}) = (st \<inter> s_pause_flags \<noteq> {})"
  by (auto simp add: run_or_pause_def s_pause_flags_def Let_def)

lemma toggle_run_pause_wakes:
  assumes "fst (get_cpu s) = Some cpu"
  shows "wakes (toggle_run_pause s)
           = (if state (heap s cpu) \<inter> s_pause_flags \<noteq> {} then Notify cpu # wakes s else wakes s)"
  using assms by (simp add: toggle_run_pause_def atomic_op_def Let_def run_or_pause_clear)

text \<open>
  Claim C2. For every flag state of the selected unit, the run button changes the unit's
  flags by one \<open>atomic_op\<close> and nothing else: if \<open>dbg_pause\<close> or \<open>dbg_global_pause\<close> is set
  it clears both, otherwise it sets \<open>dbg_pause\<close>. The unit is woken, once, if and only if
  this takes the flags from some pause flag set to none set; it is not woken when it is
  paused.
\<close>

theorem run_pause_toggle:
  assumes "fst (get_cpu s) = Some cpu"
  shows "heap (on_btn_run_clicked s) = heap (snd (atomic_op cpu run_or_pause s))
       \<and> state (heap (on_btn_run_clicked s) cpu)
           = (if state (heap s cpu) \<inter> s_pause_flags \<noteq> {}
              then state (heap s cpu) - s_pause_flags
              else state (heap s cpu) \<union> {dbg_pause})
       \<and> wakes (on_btn_run_clicked s)
           = (if state (heap s cpu) \<inter> s_pause_flags \<noteq> {}
                 \<and> state (heap (on_btn_run_clicked s) cpu) \<inter> s_pause_flags = {}
              then Notify cpu # wakes s else wakes s)"
proof -
  have h: "heap (on_btn_run_clicked s) = heap (snd (atomic_op cpu run_or_pause s))"
    by (simp add: on_btn_run_clicked_def toggle_run_pause_heap [OF assms])
  have st: "state (heap (on_btn_run_clicked s) cpu) = fst (run_or_pause (state (heap s cpu)))"
    by (simp add: h atomic_op_def run_or_pause_def Let_def)
  have w: "wakes (on_btn_run_clicked s)
             = (if state (heap s cpu) \<inter> s_pause_flags \<noteq> {} then Notify cpu # wakes s else wakes s)"
    by (simp add: on_btn_run_clicked_def wakes_UpdateUI(1) toggle_run_pause_wakes [OF assms])
  show ?thesis
    using h st w run_or_pause_clear [of "state (heap s cpu)"]
    by (simp add: run_or_pause_def Let_def)
qed

theorem run_pause_toggle_witness:
  "fst (get_cpu frame_ppu) = Some 1
   \<and> state (heap (on_btn_run_clicked frame_ppu) 1) = {}
   \<and> wakes (on_btn_run_clicked frame_ppu) = [Notify 1]"
proof -
  have a: "state (heap frame_ppu 1) = {dbg_pause}" "wakes frame_ppu = []"
    by (simp_all add: wakes_def frame_ppu_def ppu_paused_def)
  have b: "{dbg_pause} \<inter> s_pause_flags \<noteq> {}" "{dbg_pause} - s_pause_flags = {}"
    by (simp_all add: s_pause_flags_def)
  note t = run_pause_toggle [OF get_cpu_frame_ppu]
  have st: "state (heap (on_btn_run_clicked frame_ppu) 1) = {}"
    using t [THEN conjunct2, THEN conjunct1] a b by simp
  have "wakes (on_btn_run_clicked frame_ppu) = [Notify 1]"
    using t [THEN conjunct2, THEN conjunct2] a b st by simp
  then show ?thesis
    using get_cpu_frame_ppu st by simp
qed

subsection \<open>Stepping\<close>

lemma step_unit_running:
  assumes "fst (get_cpu s) = Some cpu" and "state (heap s cpu) \<inter> s_pause_flags = {}"
  shows "step_unit stepOver s = snd (get_cpu s)"
  using assms by (simp add: step_unit_def Let_def)

lemma step_unit_plain:
  assumes "fst (get_cpu s) = Some cpu" and "state (heap s cpu) \<inter> s_pause_flags \<noteq> {}"
  shows "step_unit False s
           = emit (Notify cpu) (snd (atomic_op cpu (step_flags False) (snd (get_cpu s))))"
  using assms by (simp add: step_unit_def Let_def)

lemma step_unit_over:
  assumes "fst (get_cpu s) = Some cpu" and "state (heap s cpu) \<inter> s_pause_flags \<noteq> {}"
    and "id_type (heap s cpu) = 1"
  shows "bp_side (step_unit True s)
           = ((if m_last_step_over_breakpoint s \<noteq> umax
               then insert (bp_normalize (get_pc (heap s cpu) + 4)) (m_breakpoints s)
                      - {bp_normalize (get_pc (heap s cpu) + 4)}
               else insert (bp_normalize (get_pc (heap s cpu) + 4)) (m_breakpoints s)),
              get_pc (heap s cpu) + 4)"
  using assms
  by (simp add: step_unit_def Let_def AddBreakpoint_def RemoveBreakpoint_def atomic_op_def
        emit_def bp_side_def)

lemma get_pc_step_unit [simp]: "get_pc (heap (step_unit b s) p) = get_pc (heap s p)"
  by (cases "fst (get_cpu s)")
     (simp_all add: step_unit_def Let_def AddBreakpoint_def RemoveBreakpoint_def atomic_op_def
        emit_def get_pc_def)

lemma targets_changed_step_unit [simp]: "targets_changed (step_unit b s) = targets_changed s"
proof -
  have "targets_changed (snd (get_cpu s)) = targets_changed s"
    by (rule targets_changed_sides) simp_all
  then show ?thesis
    by (cases "fst (get_cpu s)")
       (simp_all add: step_unit_def Let_def AddBreakpoint_def RemoveBreakpoint_def atomic_op_def
          emit_def targets_changed_def)
qed

lemma get_cpu_frame_spu: "fst (get_cpu frame_spu) = Some 2"
  by (simp add: fst_get_cpu cpu_valid_def rsx_valid_def frame_spu_def frame_ppu_def spu_running_def)

lemma get_cpu_frame_pending: "fst (get_cpu frame_pending) = Some 1"
  by (simp add: fst_get_cpu cpu_valid_def rsx_valid_def frame_pending_def frame_ppu_def
        ppu_paused_def)

text \<open>
  With no step-over breakpoint pending, a step-over of the PPU thread paused at 0x1000
  leaves the breakpoint set {0x1004} and records 0x1004 as pending.
\<close>

lemma DoStep_over_first: "bp_side (DoStep True frame_ppu) = ({0x1004}, 0x1004)"
proof -
  let ?x = "step_unit True frame_ppu"
  have i: "id_type (heap frame_ppu 1) = 1"
    by (simp add: id_type_def frame_ppu_def ppu_paused_def)
  have p: "state (heap frame_ppu 1) \<inter> s_pause_flags \<noteq> {}"
    by (simp add: s_pause_flags_def frame_ppu_def ppu_paused_def)
  have c: "\<And>q. get_pc (heap frame_ppu q) = 0x1000"
    by (simp add: get_pc_def frame_ppu_def ppu_paused_def)
  have b: "m_breakpoints frame_ppu = {}" "m_last_step_over_breakpoint frame_ppu = umax"
    by (simp_all add: frame_ppu_def)
  have s: "bp_side ?x = ({0x1004}, 0x1004)"
    using b c [of 1] by (simp add: step_unit_over [OF get_cpu_frame_ppu p i] bp_normalize_def)
  have "\<not> targets_changed frame_ppu"
    by (simp add: targets_changed_def frame_ppu_def)
  then have t: "\<not> targets_changed ?x"
    by simp
  have "m_last_step_over_breakpoint ?x = 0x1004"
    using s by (simp add: bp_side_def)
  then have d: "\<not> retire_due ?x"
    by (cases "fst (get_cpu ?x)") (simp_all add: retire_due_def c)
  show ?thesis
    by (simp add: DoStep_def UpdateUI_unchanged_targets [OF t] bp_side_poll_not_due [OF d] s)
qed

text \<open>
  Claim C1 at a failing input. The PPU thread is paused at 0x1000 and a step-over
  breakpoint is pending at 0x2004. The step-over adds 0x1004 and, because a breakpoint is
  pending, removes 0x1004 again (line 761 names \<open>next_instruction_pc\<close>): the pending
  breakpoint 0x2004 stays in the set, the new one is not in it, and 0x1004 is recorded as
  pending.
\<close>

theorem DoStep_over_drops_new_breakpoint:
  "fst (get_cpu frame_pending) = Some 1
   \<and> id_type (heap frame_pending 1) = 1
   \<and> state (heap frame_pending 1) \<inter> s_pause_flags \<noteq> {}
   \<and> get_pc (heap frame_pending 1) = 0x1000
   \<and> m_breakpoints frame_pending = {0x2004}
   \<and> m_last_step_over_breakpoint frame_pending = 0x2004
   \<and> m_breakpoints (DoStep True frame_pending) = {0x2004}
   \<and> m_last_step_over_breakpoint (DoStep True frame_pending) = 0x1004"
proof -
  let ?x = "step_unit True frame_pending"
  have i: "id_type (heap frame_pending 1) = 1"
    by (simp add: id_type_def frame_pending_def frame_ppu_def ppu_paused_def)
  have p: "state (heap frame_pending 1) \<inter> s_pause_flags \<noteq> {}"
    by (simp add: s_pause_flags_def frame_pending_def frame_ppu_def ppu_paused_def)
  have c: "\<And>q. get_pc (heap frame_pending q) = 0x1000"
    by (simp add: get_pc_def frame_pending_def frame_ppu_def ppu_paused_def)
  have b: "m_breakpoints frame_pending = {0x2004}"
    "m_last_step_over_breakpoint frame_pending = 0x2004"
    by (simp_all add: frame_pending_def frame_ppu_def)
  have s: "bp_side ?x = ({0x2004}, 0x1004)"
    using b c [of 1]
    by (simp add: step_unit_over [OF get_cpu_frame_pending p i] umax_def bp_normalize_def)
  have "\<not> targets_changed frame_pending"
    by (simp add: targets_changed_def frame_pending_def frame_ppu_def)
  then have t: "\<not> targets_changed ?x"
    by simp
  have "m_last_step_over_breakpoint ?x = 0x1004"
    using s by (simp add: bp_side_def)
  then have d: "\<not> retire_due ?x"
    by (cases "fst (get_cpu ?x)") (simp_all add: retire_due_def c)
  have "bp_side (DoStep True frame_pending) = ({0x2004}, 0x1004)"
    by (simp add: DoStep_def UpdateUI_unchanged_targets [OF t] bp_side_poll_not_due [OF d] s)
  then show ?thesis
    using get_cpu_frame_pending i p c [of 1] b by (simp add: bp_side_def)
qed

subsection \<open>Refreshing the target list\<close>








subsection \<open>Navigating to the predicted next instruction\<close>

lemma predict_targets_shown: "shown (snd (predict_targets cpu a s)) = shown s"
  by (simp add: predict_targets_def shown_def emit_def split: option.splits)

lemma predict_targets_not_executable:
  assumes "id_type (heap s cpu) = 1" and "\<not> vm_page_executable s a"
  shows "predict_targets cpu a s = ((umax, umax), s)"
  using assms by (simp add: predict_targets_def)

text \<open>
  Claim C9. When the predictor yields no candidate address, the key N makes no navigation
  request. For a PPU unit whose marked address is not executable memory, the prediction is
  empty without any read of instruction memory, and the key leaves the trace as it was:
  no read, no navigation, no fault.
\<close>

theorem keyPressEvent_Key_N_no_target:
  assumes "fst (get_cpu s) = Some cpu"
  shows "(fst (predict_targets cpu (marked_pc list_m_pc i (heap s cpu)) (snd (get_cpu s)))
            = (umax, umax)
          \<longrightarrow> shown (keyPressEvent_Key_N isActiveWindow control list_m_pc i s) = shown s)
       \<and> (id_type (heap s cpu) = 1
            \<and> \<not> vm_page_executable s (marked_pc list_m_pc i (heap s cpu))
          \<longrightarrow> predict_targets cpu (marked_pc list_m_pc i (heap s cpu)) (snd (get_cpu s))
                = ((umax, umax), snd (get_cpu s))
              \<and> keyPressEvent_Key_N True False list_m_pc i s = snd (get_cpu s)
              \<and> events (keyPressEvent_Key_N isActiveWindow control list_m_pc i s) = events s)"
proof (intro conjI impI)
  let ?a = "marked_pc list_m_pc i (heap s cpu)"
  assume n: "fst (predict_targets cpu ?a (snd (get_cpu s))) = (umax, umax)"
  have "shown (snd (predict_targets cpu ?a (snd (get_cpu s)))) = shown s"
    by (simp add: predict_targets_shown) (simp add: shown_def)
  moreover have "shown (snd (get_cpu s)) = shown s"
    by (simp add: shown_def)
  ultimately show "shown (keyPressEvent_Key_N isActiveWindow control list_m_pc i s) = shown s"
    using assms n by (simp add: keyPressEvent_Key_N_def find_last_not_of_umax_def Let_def)
next
  let ?a = "marked_pc list_m_pc i (heap s cpu)"
  assume "id_type (heap s cpu) = 1 \<and> \<not> vm_page_executable s ?a"
  then have p: "predict_targets cpu ?a (snd (get_cpu s)) = ((umax, umax), snd (get_cpu s))"
    by (simp add: predict_targets_not_executable)
  show "predict_targets cpu ?a (snd (get_cpu s)) = ((umax, umax), snd (get_cpu s))"
    by (rule p)
  show "keyPressEvent_Key_N True False list_m_pc i s = snd (get_cpu s)"
    using assms p by (simp add: keyPressEvent_Key_N_def find_last_not_of_umax_def Let_def)
  show "events (keyPressEvent_Key_N isActiveWindow control list_m_pc i s) = events s"
    using assms p by (simp add: keyPressEvent_Key_N_def find_last_not_of_umax_def Let_def)
qed

theorem keyPressEvent_Key_N_no_target_witness:
  "fst (get_cpu frame_ppu) = Some 1
   \<and> id_type (heap frame_ppu 1) = 1
   \<and> \<not> vm_page_executable frame_ppu (marked_pc 0x1000 2 (heap frame_ppu 1))
   \<and> fst (predict_targets 1 (marked_pc 0x1000 2 (heap frame_ppu 1)) (snd (get_cpu frame_ppu)))
       = (umax, umax)
   \<and> shown (keyPressEvent_Key_N True False 0x1000 2 frame_ppu) = []
   \<and> events (keyPressEvent_Key_N True False 0x1000 2 frame_ppu) = []"
proof -
  have i: "id_type (heap frame_ppu 1) = 1"
    by (simp add: id_type_def frame_ppu_def ppu_paused_def)
  have x: "\<not> vm_page_executable frame_ppu (marked_pc 0x1000 2 (heap frame_ppu 1))"
    by (simp add: frame_ppu_def)
  have e: "events frame_ppu = []" "shown frame_ppu = []"
    by (simp_all add: shown_def frame_ppu_def)
  note t = keyPressEvent_Key_N_no_target [OF get_cpu_frame_ppu, of "0x1000" 2 True False]
  have p: "fst (predict_targets 1 (marked_pc 0x1000 2 (heap frame_ppu 1)) (snd (get_cpu frame_ppu)))
             = (umax, umax)"
    using t [THEN conjunct2] i x by simp
  have "shown (keyPressEvent_Key_N True False 0x1000 2 frame_ppu) = []"
    using t [THEN conjunct1] p e by simp
  moreover have "events (keyPressEvent_Key_N True False 0x1000 2 frame_ppu) = []"
    using t [THEN conjunct2] i x e by simp
  ultimately show ?thesis
    using get_cpu_frame_ppu i x p by simp
qed

subsection \<open>One kind of unit at a time\<close>

text \<open>
  Every member function modelled here keeps \<open>selection_inv\<close>, and binding a unit
  establishes it.
\<close>

lemma m_rsx_get_cpu_None [simp]: "m_rsx s = None \<Longrightarrow> m_rsx (snd (get_cpu s)) = None"
  by (simp add: get_cpu_eq rsx_valid_def)

lemma selection_ShowPC [simp]:
  "m_cpu (ShowPC s) = m_cpu s"
  "m_rsx s = None \<Longrightarrow> m_rsx (ShowPC s) = None"
  by (simp_all add: ShowPC_def emit_def Let_def)

lemma selection_WritePanels [simp]:
  "m_cpu (WritePanels s) = m_cpu s"
  "m_rsx s = None \<Longrightarrow> m_rsx (WritePanels s) = None"
  by (simp_all add: WritePanels_def emit_def Let_def split: option.splits)

lemma selection_DoUpdate [simp]:
  "m_cpu (DoUpdate s) = m_cpu s"
  "m_rsx s = None \<Longrightarrow> m_rsx (DoUpdate s) = None"
  by (simp_all add: DoUpdate_def RemoveBreakpoint_def Let_def)

lemma selection_EnableButtons [simp]:
  "m_cpu (EnableButtons b s) = m_cpu s"
  "m_rsx s = None \<Longrightarrow> m_rsx (EnableButtons b s) = None"
  by (simp_all add: EnableButtons_def emit_def Let_def)

lemma selection_render_selected [simp]:
  "m_cpu (snd (render_selected s)) = m_cpu s"
  "m_rsx s = None \<Longrightarrow> m_rsx (snd (render_selected s)) = None"
  by (simp_all add: render_selected_def Let_def split: option.splits)

lemma selection_poll_unit_state [simp]:
  "m_cpu (poll_unit_state s) = m_cpu s"
  "m_rsx s = None \<Longrightarrow> m_rsx (poll_unit_state s) = None"
  by (simp_all add: poll_unit_state_def emit_def Let_def split: option.splits)

lemma selection_on_select [simp]:
  "m_cpu (on_select e old x s) = m_cpu s"
  "m_rsx (on_select e old x s) = m_rsx s"
  by (simp_all add: on_select_def addItem_def setCurrentIndex_def Let_def)

lemma selection_fold_on_select [simp]:
  "m_cpu (fold (on_select e old) xs s) = m_cpu s"
  "m_rsx (fold (on_select e old) xs s) = m_rsx s"
  by (induction xs arbitrary: s) simp_all

lemma selection_rebuild_unit_list [simp]:
  "m_cpu (rebuild_unit_list e s) = m_cpu s"
  "m_rsx (rebuild_unit_list e s) = m_rsx s"
  by (simp_all add: rebuild_unit_list_def addItem_def choice_clear_def setCurrentIndex_def
        Let_def split: option.splits)

lemma selection_inv_kept:
  assumes "selection_inv s"
    and "m_cpu s' = m_cpu s"
    and "m_rsx s = None \<Longrightarrow> m_rsx s' = None"
  shows "selection_inv s'"
  using assms by (auto simp add: selection_inv_def)

lemma selection_inv_bind_selected_unit: "selection_inv (bind_selected_unit w r s)"
proof -
  have b: "\<And>x. selection_inv x \<Longrightarrow> selection_inv (snd (get_cpu x))"
    by (erule selection_inv_kept) simp_all
  have c: "\<And>x e. selection_inv x \<Longrightarrow> selection_inv (emit e x)"
    by (simp add: selection_inv_def emit_def)
  have d: "\<And>x. selection_inv x \<Longrightarrow> selection_inv (EnableButtons True x)"
    by (erule selection_inv_kept) simp_all
  have e: "\<And>x. selection_inv x \<Longrightarrow> selection_inv (DoUpdate x)"
    by (erule selection_inv_kept) simp_all
  show ?thesis
    unfolding bind_selected_unit_def Let_def
    by (intro e c b d) (auto simp add: selection_inv_def emit_def split: option.splits)
qed

lemma selection_inv_UpdateUI:
  "selection_inv s \<Longrightarrow> selection_inv (UpdateUI s)"
  "selection_inv s \<Longrightarrow> selection_inv (UpdateUnitList s)"
  "selection_inv s \<Longrightarrow> selection_inv (OnSelectUnit s)"
proof -
  let ?R = "\<lambda>s s'. selection_inv s \<longrightarrow> selection_inv s'"
  have p: "\<And>s. ?R s (poll_unit_state s)"
    by (auto elim: selection_inv_kept)
  have b: "\<And>s. ?R s (rebuild_unit_list (Emu_status s) (record_counters s))"
    by (simp add: selection_inv_def record_counters_def)
  have u: "\<And>s. ?R s (emit ChoiceUpdate s)"
    by (simp add: selection_inv_def emit_def)
  have n: "\<And>s. ?R s ((emit (BpListUpdateCPUData None None)
                          (emit (ListUpdateCPUData None None) s))
                        \<lparr>m_disasm := None, m_cpu := None\<rparr>)"
    by (simp add: selection_inv_def)
  have r: "\<And>s. ?R s (snd (render_selected s))"
    by (auto elim: selection_inv_kept)
  have d: "\<And>w r s. ?R s (bind_selected_unit w r s)"
    by (simp add: selection_inv_bind_selected_unit)
  have "?R s (UpdateUI s)"
    by (rule poll_cycle_relation(1) [where R = ?R]) (simp_all add: p b u n r d)
  then show "selection_inv s \<Longrightarrow> selection_inv (UpdateUI s)"
    by simp
  have "?R s (UpdateUnitList s)"
    by (rule poll_cycle_relation(2) [where R = ?R]) (simp_all add: p b u n r d)
  then show "selection_inv s \<Longrightarrow> selection_inv (UpdateUnitList s)"
    by simp
  have "?R s (OnSelectUnit s)"
    by (rule poll_cycle_relation(3) [where R = ?R]) (simp_all add: p b u n r d)
  then show "selection_inv s \<Longrightarrow> selection_inv (OnSelectUnit s)"
    by simp
qed

lemma selection_inv_step_unit: "selection_inv s \<Longrightarrow> selection_inv (step_unit b s)"
  by (erule selection_inv_kept; cases "fst (get_cpu s)")
     (simp_all add: step_unit_def Let_def AddBreakpoint_def RemoveBreakpoint_def atomic_op_def
        emit_def)

lemma selection_inv_toggle_run_pause: "selection_inv s \<Longrightarrow> selection_inv (toggle_run_pause s)"
  by (erule selection_inv_kept; cases "fst (get_cpu s)")
     (simp_all add: toggle_run_pause_def Let_def atomic_op_def emit_def)

lemma selection_inv_handlers:
  assumes "selection_inv s"
  shows "selection_inv (snd (get_cpu s))"
    and "selection_inv (DoUpdate s)"
    and "selection_inv (DoStep b s)"
    and "selection_inv (on_btn_run_clicked s)"
    and "selection_inv (snd (EvaluateExpression t s))"
    and "selection_inv (ShowGotoAddressDialog a s)"
    and "selection_inv (keyPressEvent_Key_N w c m i s)"
proof -
  have g: "\<And>x. selection_inv x \<Longrightarrow> selection_inv (snd (get_cpu x))"
    by (erule selection_inv_kept) simp_all
  show "selection_inv (snd (get_cpu s))"
    using assms by (rule g)
  show "selection_inv (DoUpdate s)"
    using assms by (rule selection_inv_kept) simp_all
  show "selection_inv (DoStep b s)"
    using assms by (simp add: DoStep_def selection_inv_UpdateUI(1) selection_inv_step_unit)
  show "selection_inv (on_btn_run_clicked s)"
    using assms
    by (simp add: on_btn_run_clicked_def selection_inv_UpdateUI(1) selection_inv_toggle_run_pause)
  show e: "\<And>t. selection_inv (snd (EvaluateExpression t s))"
    using assms g [OF assms]
    by (simp add: EvaluateExpression_def Let_def split: option.splits)
  have e': "\<And>t x. selection_inv x \<Longrightarrow> selection_inv (snd (EvaluateExpression t x))"
    using g by (simp add: EvaluateExpression_def Let_def split: option.splits)
  show "selection_inv (ShowGotoAddressDialog a s)"
    using g [OF g [OF assms]] e' [OF g [OF g [OF assms]]]
    by (cases a) (simp_all add: ShowGotoAddressDialog_def Let_def emit_def selection_inv_def)
  have "\<And>p a. selection_inv (snd (predict_targets p a (snd (get_cpu s))))"
    using g [OF assms]
    by (simp add: predict_targets_def emit_def selection_inv_def split: option.splits)
  then show "selection_inv (keyPressEvent_Key_N w c m i s)"
    using assms g [OF assms]
    by (simp add: keyPressEvent_Key_N_def Let_def emit_def selection_inv_def
          split: option.splits)
qed

subsection \<open>A plain step\<close>

text \<open>
  Nothing the poll does after it has resolved the unit changes which unit is resolved.
\<close>

lemma resolved_updates [simp]:
  "fst (get_cpu (s\<lparr>m_last_pc := p\<rparr>)) = fst (get_cpu s)"
  "fst (get_cpu (s\<lparr>m_last_query_state := q\<rparr>)) = fst (get_cpu s)"
  "fst (get_cpu (s\<lparr>m_breakpoints := b\<rparr>)) = fst (get_cpu s)"
  "fst (get_cpu (s\<lparr>m_last_step_over_breakpoint := l\<rparr>)) = fst (get_cpu s)"
  "fst (get_cpu (s\<lparr>events := ev\<rparr>)) = fst (get_cpu s)"
  by (simp_all add: fst_get_cpu)

lemma resolved_get_cpu [simp]: "fst (get_cpu (snd (get_cpu s))) = fst (get_cpu s)"
  by (simp add: get_cpu_idem)

lemma resolved_emit [simp]: "fst (get_cpu (emit e s)) = fst (get_cpu s)"
  by (simp add: emit_def)

lemma resolved_ShowPC [simp]: "fst (get_cpu (ShowPC s)) = fst (get_cpu s)"
  by (simp add: ShowPC_def Let_def)

lemma resolved_WritePanels [simp]: "fst (get_cpu (WritePanels s)) = fst (get_cpu s)"
  by (cases "fst (get_cpu s)") (simp_all add: WritePanels_def Let_def)

lemma resolved_DoUpdate [simp]: "fst (get_cpu (DoUpdate s)) = fst (get_cpu s)"
  by (simp add: DoUpdate_def RemoveBreakpoint_def Let_def)

lemma heap_DoUpdate [simp]: "heap (DoUpdate s) = heap s"
  using DoUpdate_sides(1) [of s] by (simp add: emulator_side_def)

lemma heap_emit [simp]: "heap (emit e s) = heap s"
  by (simp add: emit_def)

lemma retired_at_refl [simp]: "retired_at s s"
  by (simp add: retired_at_def)

lemma retired_at_from:
  "bp_side x = bp_side s \<Longrightarrow> retired_at x y \<Longrightarrow> retired_at s y"
  by (simp add: retired_at_def)

lemma retired_at_to:
  assumes "retired_at s x" and "bp_side y = bp_side x" and "heap y = heap x"
    and "fst (get_cpu y) = fst (get_cpu x)"
  shows "retired_at s y"
  using assms by (simp add: retired_at_def)

lemma retired_at_DoUpdate: "retired_at s (DoUpdate s)"
proof (cases "retire_due s")
  case True
  then obtain cpu where "fst (get_cpu s) = Some cpu"
    and "get_pc (heap s cpu) = m_last_step_over_breakpoint s"
    by (cases "fst (get_cpu s)") (simp_all add: retire_due_def)
  with True retire_due_pending [OF True] show ?thesis
    by (simp add: retired_at_def bp_side_DoUpdate) (simp add: bp_side_def)
next
  case False
  then show ?thesis
    by (simp add: retired_at_def bp_side_DoUpdate)
qed

lemma retired_at_then_DoUpdate:
  assumes "retired_at s x"
  shows "retired_at s (DoUpdate x)"
proof (cases "bp_side x = bp_side s")
  case True
  then show ?thesis
    using retired_at_DoUpdate [of x] by (rule retired_at_from)
next
  case False
  with assms have "snd (bp_side x) = umax"
    by (auto simp add: retired_at_def)
  then have "\<not> retire_due x"
    using retire_due_pending [of x] by auto
  then have "bp_side (DoUpdate x) = bp_side x"
    by (simp add: bp_side_DoUpdate)
  with assms show ?thesis
    by (rule retired_at_to) simp_all
qed

lemma retired_at_then_emit: "retired_at s x \<Longrightarrow> retired_at s (emit e x)"
  by (erule retired_at_to) simp_all

lemma retired_at_then_get_cpu: "retired_at s x \<Longrightarrow> retired_at s (snd (get_cpu x))"
  by (erule retired_at_to) simp_all

lemma retired_at_then_poll:
  assumes "retired_at s x"
  shows "retired_at s (poll_unit_state x)"
proof -
  have g: "retired_at s (snd (get_cpu x))"
    using assms by (rule retired_at_then_get_cpu)
  have u: "\<And>q p. retired_at s ((snd (get_cpu x))\<lparr>m_last_query_state := q, m_last_pc := p\<rparr>)"
    by (rule retired_at_to [OF g]) simp_all
  show ?thesis
    by (cases "fst (get_cpu x)")
       (simp_all add: poll_unit_state_def Let_def g u retired_at_then_DoUpdate
          retired_at_then_emit)
qed

lemma retired_at_DoUpdate_from: "bp_side x = bp_side s \<Longrightarrow> retired_at s (DoUpdate x)"
  by (erule retired_at_from) (rule retired_at_DoUpdate)

lemma retired_at_bind_selected_unit: "retired_at s (bind_selected_unit w r s)"
  unfolding bind_selected_unit_def Let_def
  by (rule retired_at_DoUpdate_from) (simp split: option.splits)

lemma heap_poll_unit_state [simp]: "heap (poll_unit_state s) = heap s"
  using poll_unit_state_sides(1) [of s] by (simp add: emulator_side_def)

lemma heap_bind_selected_unit [simp]: "heap (bind_selected_unit w r s) = heap s"
  using bind_selected_unit_sides(1) [of w r s] by (simp add: emulator_side_def)

lemma retired_at_OnSelectUnit:
  assumes "\<not> targets_changed s"
  shows "retired_at s (OnSelectUnit s)"
proof -
  let ?r = "snd (render_selected s)"
  let ?b = "bind_selected_unit (value_weak (currentData s)) (value_render (currentData s)) ?r"
  have "\<not> targets_changed ?b"
    using assms by (simp add: targets_changed_after_bind)
  then have u: "UpdateUI ?b = poll_unit_state ?b"
    by (rule UpdateUI_unchanged_targets)
  have "retired_at ?r ?b"
    by (rule retired_at_bind_selected_unit)
  then have "retired_at s ?b"
    by (rule retired_at_from [rotated]) simp
  then have p: "retired_at s (poll_unit_state ?b)"
    by (rule retired_at_then_poll)
  have n: "retired_at s ((emit (BpListUpdateCPUData None None)
                           (emit (ListUpdateCPUData None None) s))
                         \<lparr>m_disasm := None, m_cpu := None\<rparr>)"
    by (simp add: retired_at_def emit_def)
  have r: "retired_at s ?r"
    by (simp add: retired_at_def)
  show ?thesis
    by (simp add: OnSelectUnit.simps u p n r)
qed

lemma retired_at_UpdateUI: "retired_at s (UpdateUI s)"
proof (cases "targets_changed s")
  case False
  then show ?thesis
    by (simp add: UpdateUI_unchanged_targets retired_at_then_poll)
next
  case True
  let ?c = "rebuild_unit_list (Emu_status s) (record_counters s)"
  have "retired_at ?c (OnSelectUnit ?c)"
    by (rule retired_at_OnSelectUnit) (rule targets_unchanged_after_rebuild)
  then have "retired_at s (OnSelectUnit ?c)"
    by (rule retired_at_from [rotated]) simp
  then have "retired_at s (poll_unit_state (emit ChoiceUpdate (OnSelectUnit ?c)))"
    by (intro retired_at_then_poll retired_at_then_emit)
  then show ?thesis
    using True by (simp add: UpdateUI.simps UpdateUnitList.simps)
qed

lemma resolved_poll_unit_state [simp]: "fst (get_cpu (poll_unit_state s)) = fst (get_cpu s)"
  by (cases "fst (get_cpu s)") (simp_all add: poll_unit_state_def Let_def)

lemma get_cpu_frame_spu_away: "fst (get_cpu frame_spu_away) = Some 2"
  by (simp add: fst_get_cpu cpu_valid_def rsx_valid_def frame_spu_away_def frame_spu_def
        frame_ppu_def spu_running_def)

text \<open>
  Claim C3, as amended. A plain step of a selected unit that has a pause flag set clears
  \<open>dbg_pause\<close> and \<open>dbg_global_pause\<close>, sets \<open>dbg_step\<close> and wakes the unit once. A
  plain step of a unit with no pause flag set is the poll \<open>UpdateUI\<close> that ends every
  \<open>DoStep\<close> and nothing more: no flag changes, no unit is woken, and the breakpoint set is
  as before unless the poll retires the pending step-over breakpoint, which it does only
  when the breakpoint's address is the current program counter of the unit selected after
  the poll; that unit is the stepped one when the target list needed no refresh.
\<close>

theorem DoStep_plain:
  assumes "fst (get_cpu s) = Some cpu"
  shows "(state (heap s cpu) \<inter> s_pause_flags \<noteq> {} \<longrightarrow>
            state (heap (DoStep False s) cpu) = state (heap s cpu) - s_pause_flags \<union> {dbg_step}
          \<and> wakes (DoStep False s) = Notify cpu # wakes s)
       \<and> (state (heap s cpu) \<inter> s_pause_flags = {} \<longrightarrow>
            DoStep False s = UpdateUI (snd (get_cpu s))
          \<and> heap (DoStep False s) = heap s
          \<and> wakes (DoStep False s) = wakes s
          \<and> (m_breakpoints (DoStep False s) = m_breakpoints s
               \<and> m_last_step_over_breakpoint (DoStep False s) = m_last_step_over_breakpoint s
             \<or> m_last_step_over_breakpoint s \<noteq> umax
               \<and> m_breakpoints (DoStep False s)
                   = m_breakpoints s - {bp_normalize (m_last_step_over_breakpoint s)}
               \<and> m_last_step_over_breakpoint (DoStep False s) = umax
               \<and> (\<exists>unit. fst (get_cpu (DoStep False s)) = Some unit
                     \<and> get_pc (heap s unit) = m_last_step_over_breakpoint s))
          \<and> (\<not> targets_changed s \<longrightarrow> fst (get_cpu (DoStep False s)) = Some cpu))"
proof (intro conjI impI)
  assume p: "state (heap s cpu) \<inter> s_pause_flags \<noteq> {}"
  show "state (heap (DoStep False s) cpu) = state (heap s cpu) - s_pause_flags \<union> {dbg_step}"
    by (simp add: DoStep_def step_unit_plain [OF assms p] emit_def atomic_op_def step_flags_def
          Let_def)
  show "wakes (DoStep False s) = Notify cpu # wakes s"
    by (simp add: DoStep_def wakes_UpdateUI(1) step_unit_plain [OF assms p] atomic_op_def)
next
  assume r: "state (heap s cpu) \<inter> s_pause_flags = {}"
  show e: "DoStep False s = UpdateUI (snd (get_cpu s))"
    by (simp add: DoStep_def step_unit_running [OF assms r])
  show h: "heap (DoStep False s) = heap s"
    by (simp add: e)
  show "wakes (DoStep False s) = wakes s"
    by (simp add: e wakes_UpdateUI(1))
  have "retired_at (snd (get_cpu s)) (UpdateUI (snd (get_cpu s)))"
    by (rule retired_at_UpdateUI)
  then have "retired_at s (DoStep False s)"
    unfolding e by (rule retired_at_from [rotated]) simp
  then show "m_breakpoints (DoStep False s) = m_breakpoints s
               \<and> m_last_step_over_breakpoint (DoStep False s) = m_last_step_over_breakpoint s
             \<or> m_last_step_over_breakpoint s \<noteq> umax
               \<and> m_breakpoints (DoStep False s)
                   = m_breakpoints s - {bp_normalize (m_last_step_over_breakpoint s)}
               \<and> m_last_step_over_breakpoint (DoStep False s) = umax
               \<and> (\<exists>unit. fst (get_cpu (DoStep False s)) = Some unit
                     \<and> get_pc (heap s unit) = m_last_step_over_breakpoint s)"
    unfolding retired_at_def h by (auto simp add: bp_side_def)
  assume "\<not> targets_changed s"
  then have "\<not> targets_changed (snd (get_cpu s))"
    by (simp add: targets_changed_sides [of "snd (get_cpu s)" s])
  then show "fst (get_cpu (DoStep False s)) = Some cpu"
    using assms by (simp add: e UpdateUI_unchanged_targets)
qed

theorem DoStep_plain_witness:
  "fst (get_cpu frame_ppu) = Some 1
   \<and> state (heap frame_ppu 1) \<inter> s_pause_flags \<noteq> {}
   \<and> state (heap (DoStep False frame_ppu) 1) = {dbg_step}
   \<and> wakes (DoStep False frame_ppu) = [Notify 1]
   \<and> fst (get_cpu frame_spu_away) = Some 2
   \<and> state (heap frame_spu_away 2) \<inter> s_pause_flags = {}
   \<and> \<not> targets_changed frame_spu_away
   \<and> heap (DoStep False frame_spu_away) = heap frame_spu_away
   \<and> fst (get_cpu (DoStep False frame_spu_away)) = Some 2
   \<and> m_breakpoints (DoStep False frame_spu_away) = {0x30000}
   \<and> m_last_step_over_breakpoint (DoStep False frame_spu_away) = 0x30000"
proof -
  have a: "state (heap frame_ppu 1) = {dbg_pause}" "wakes frame_ppu = []"
    by (simp_all add: wakes_def frame_ppu_def ppu_paused_def)
  have b: "{dbg_pause} \<inter> s_pause_flags \<noteq> {}" "{dbg_pause} - s_pause_flags = {}"
    by (simp_all add: s_pause_flags_def)
  note p = DoStep_plain [OF get_cpu_frame_ppu, THEN conjunct1]
  have p1: "state (heap (DoStep False frame_ppu) 1) = {dbg_step}"
    and p2: "wakes (DoStep False frame_ppu) = [Notify 1]"
    using p a b by simp_all
  have c: "state (heap frame_spu_away 2) \<inter> s_pause_flags = {}"
    by (simp add: frame_spu_away_def frame_spu_def frame_ppu_def spu_running_def)
  have t: "\<not> targets_changed frame_spu_away"
    by (simp add: targets_changed_def frame_spu_away_def frame_spu_def frame_ppu_def)
  have m: "m_breakpoints frame_spu_away = {0x30000}"
    "m_last_step_over_breakpoint frame_spu_away = 0x30000"
    by (simp_all add: frame_spu_away_def frame_spu_def frame_ppu_def)
  have n: "\<And>unit. get_pc (heap frame_spu_away unit) \<noteq> 0x30000"
    by (simp add: get_pc_def frame_spu_away_def frame_spu_def frame_ppu_def spu_running_def
          ppu_paused_def)
  note r = DoStep_plain [OF get_cpu_frame_spu_away, THEN conjunct2, THEN mp, OF c,
      THEN conjunct2]
  have r1: "heap (DoStep False frame_spu_away) = heap frame_spu_away"
    by (rule r [THEN conjunct1])
  have r2: "fst (get_cpu (DoStep False frame_spu_away)) = Some 2"
    by (rule r [THEN conjunct2, THEN conjunct2, THEN conjunct2, THEN mp, OF t])
  have r3: "m_breakpoints (DoStep False frame_spu_away) = {0x30000}
            \<and> m_last_step_over_breakpoint (DoStep False frame_spu_away) = 0x30000"
    using r [THEN conjunct2, THEN conjunct2, THEN conjunct1] m n by auto
  show ?thesis
    using get_cpu_frame_ppu b(1) a(1) p1 p2 get_cpu_frame_spu_away c t r1 r2 r3 by simp
qed

text \<open>
  Claim C3, as stated, fails: a plain step of a running unit changes the breakpoint set
  when the poll at its end finds the unit at the pending step-over address.
\<close>

theorem DoStep_running_retires_breakpoint:
  "fst (get_cpu frame_spu) = Some 2
   \<and> state (heap frame_spu 2) \<inter> s_pause_flags = {}
   \<and> m_breakpoints frame_spu = {0x10004}
   \<and> m_breakpoints (DoStep False frame_spu) = {}
   \<and> m_breakpoints (DoStep False frame_spu) \<noteq> m_breakpoints frame_spu"
proof -
  have r: "state (heap frame_spu 2) \<inter> s_pause_flags = {}"
    by (simp add: frame_spu_def frame_ppu_def spu_running_def)
  have b: "bp_side frame_spu = ({0x10004}, 0x10004)"
    by (simp add: bp_side_def frame_spu_def frame_ppu_def)
  have t: "\<not> targets_changed (snd (get_cpu frame_spu))"
    by (simp add: targets_changed_def) (simp add: frame_spu_def frame_ppu_def)
  have d: "retire_due frame_spu"
    by (simp add: retire_due_def get_cpu_frame_spu)
       (simp add: frame_spu_def frame_ppu_def spu_running_def get_pc_def umax_def)
  have c: "m_last_pc frame_spu \<noteq> get_pc (heap frame_spu 2)"
    by (simp add: frame_spu_def frame_ppu_def spu_running_def get_pc_def)
  have "DoStep False frame_spu = poll_unit_state (snd (get_cpu frame_spu))"
    by (simp add: DoStep_def step_unit_running [OF get_cpu_frame_spu r]
          UpdateUI_unchanged_targets [OF t])
  also have "\<dots> = poll_unit_state frame_spu"
    by (simp add: poll_unit_state_def get_cpu_idem)
  finally have "bp_side (DoStep False frame_spu) = ({0x10004} - {bp_normalize 0x10004}, umax)"
    using bp_side_poll_due [OF get_cpu_frame_spu c d] b by simp
  then have "m_breakpoints (DoStep False frame_spu) = {}"
    by (simp add: bp_side_def bp_normalize_def)
  then show ?thesis
    using get_cpu_frame_spu r b by (simp add: bp_side_def)
qed

end
